theory Spec2Isabelle
  imports Main "HOL-Library.AList"
begin

section \<open>Python strings\<close>

text \<open>
  A Python \<open>str\<close> is an Isabelle \<open>string\<close>: the character with number \<open>n\<close> stands for
  the code point \<open>n\<close>, so the model covers the strings whose code points lie below 256.
  On these, \<open>str.isspace\<close> holds for the twelve code points listed in \<open>py_isspace\<close>,
  and \<open>str.lower\<close> moves \<open>A\<close>..\<open>Z\<close> and the capital letters \<open>0xC0\<close>..\<open>0xDE\<close>
  (without the multiplication sign \<open>0xD7\<close>) up by 32.
\<close>

definition py_isspace :: "char \<Rightarrow> bool" where
  "py_isspace c = ((of_char c :: nat) \<in> {9, 10, 11, 12, 13, 28, 29, 30, 31, 32, 133, 160})"

definition py_strip :: "string \<Rightarrow> string" where
  "py_strip s = rev (dropWhile py_isspace (rev (dropWhile py_isspace s)))"

definition mayusculas :: string where
  "mayusculas = ''ABCDEFGHIJKLMNOPQRSTUVWXYZ'' @
     [CHR 0xC0, CHR 0xC1, CHR 0xC2, CHR 0xC3, CHR 0xC4, CHR 0xC5, CHR 0xC6, CHR 0xC7,
      CHR 0xC8, CHR 0xC9, CHR 0xCA, CHR 0xCB, CHR 0xCC, CHR 0xCD, CHR 0xCE, CHR 0xCF,
      CHR 0xD0, CHR 0xD1, CHR 0xD2, CHR 0xD3, CHR 0xD4, CHR 0xD5, CHR 0xD6,
      CHR 0xD8, CHR 0xD9, CHR 0xDA, CHR 0xDB, CHR 0xDC, CHR 0xDD, CHR 0xDE]"

definition minusculas :: string where
  "minusculas = ''abcdefghijklmnopqrstuvwxyz'' @
     [CHR 0xE0, CHR 0xE1, CHR 0xE2, CHR 0xE3, CHR 0xE4, CHR 0xE5, CHR 0xE6, CHR 0xE7,
      CHR 0xE8, CHR 0xE9, CHR 0xEA, CHR 0xEB, CHR 0xEC, CHR 0xED, CHR 0xEE, CHR 0xEF,
      CHR 0xF0, CHR 0xF1, CHR 0xF2, CHR 0xF3, CHR 0xF4, CHR 0xF5, CHR 0xF6,
      CHR 0xF8, CHR 0xF9, CHR 0xFA, CHR 0xFB, CHR 0xFC, CHR 0xFD, CHR 0xFE]"

definition lower_char :: "char \<Rightarrow> char" where
  "lower_char c = (case map_of (zip mayusculas minusculas) c of Some d \<Rightarrow> d | None \<Rightarrow> c)"

definition py_lower :: "string \<Rightarrow> string" where
  "py_lower s = map lower_char s"

text \<open>\<open>s.split(',')\<close>: the pieces between the commas, at least one piece.\<close>

fun split_coma :: "string \<Rightarrow> string list" where
  "split_coma [] = [[]]"
| "split_coma (c # cs) =
     (if c = CHR '','' then [] # split_coma cs
      else (case split_coma cs of [] \<Rightarrow> [[c]] | p # ps \<Rightarrow> (c # p) # ps))"

text \<open>\<open>valor.replace('Z', '+00:00')\<close>\<close>

definition replace_Z :: "string \<Rightarrow> string" where
  "replace_Z s = concat (map (\<lambda>c. if c = CHR ''Z'' then ''+00:00'' else [c]) s)"

text \<open>\<open>sep.join(xs)\<close>\<close>

fun join :: "string \<Rightarrow> string list \<Rightarrow> string" where
  "join sep [] = []"
| "join sep [x] = x"
| "join sep (x # y # ys) = x @ sep @ join sep (y # ys)"

text \<open>\<open>not s or not s.strip()\<close>, the test every operation applies to its text arguments.\<close>

definition vacio :: "string \<Rightarrow> bool" where
  "vacio s = (s = [] \<or> py_strip s = [])"

section \<open>Decimal digits\<close>

definition es_digito :: "char \<Rightarrow> bool" where
  "es_digito c = (c \<in> set ''0123456789'')"

definition valor_digito :: "char \<Rightarrow> nat" where
  "valor_digito c = of_char c - 48"

definition valor_digitos :: "string \<Rightarrow> nat" where
  "valor_digitos s = foldl (\<lambda>n c. 10 * n + valor_digito c) 0 s"

definition cifra :: "nat \<Rightarrow> char" where
  "cifra d = ''0123456789'' ! (d mod 10)"

fun digitos :: "nat \<Rightarrow> string" where
  "digitos n = (if n < 10 then [cifra n] else digitos (n div 10) @ [cifra n])"

text \<open>\<open>'%0wd' % n\<close>: at least \<open>w\<close> digits, zeros in front.\<close>

definition rellenar :: "nat \<Rightarrow> nat \<Rightarrow> string" where
  "rellenar w n = replicate (w - length (digitos n)) (CHR ''0'') @ digitos n"

text \<open>\<open>str(n)\<close> of an integer.\<close>

definition str_int :: "int \<Rightarrow> string" where
  "str_int n = (if n < 0 then ''-'' @ digitos (nat (- n)) else digitos (nat n))"

section \<open>Python values\<close>

datatype pydate = Fecha nat nat nat

text \<open>Hour, minute, second, microsecond, and the UTC offset in microseconds of an aware time.\<close>

datatype pytime = Hora nat nat nat nat "int option"

datatype pydatetime = FechaHora pydate pytime

text \<open>
  A \<open>Decimal\<close>: sign, coefficient and exponent of a finite number, a signed infinity, or a
  NaN with its sign, its signalling flag and its diagnostic digits.
\<close>

datatype pydecimal = Finito bool nat int | Infinito bool | NaN bool bool nat

text \<open>A \<open>float\<close>: sign, mantissa and binary exponent of a finite number, an infinity, a NaN.\<close>

datatype pyfloat = Flotante bool nat int | FInf bool | FNaN

datatype pyuuid = UUID nat

text \<open>
  The values a payload field, a bound parameter or a result cell holds. Payload fields are
  JSON scalars, so lists and nested objects are outside the model.
\<close>

datatype pyval =
    VNone
  | VBool bool
  | VInt int
  | VFloat pyfloat
  | VStr string
  | VDecimal pydecimal
  | VUUID pyuuid
  | VDate pydate
  | VDateTime pydatetime
  | VTime pytime
  | VTimedelta int
  | VBytes string

text \<open>
  Exceptions, without their messages. \<open>ErrorBD\<close> is whatever the driver or SQLAlchemy
  raises; \<open>RuntimeError\<close> carries its cause (\<open>raise RuntimeError(...) from ex\<close>).
  \<open>InvalidOperation\<close> is \<open>decimal.InvalidOperation\<close>, an \<open>ArithmeticError\<close>.
\<close>

datatype py_exc =
    ValueError
  | TypeError
  | AttributeError
  | KeyError
  | InvalidOperation
  | ErrorBD
  | RuntimeError py_exc

type_synonym pydict = "(string \<times> pyval) list"

section \<open>The library\<close>

text \<open>
  What the standard library, \<open>bcrypt\<close> and the running Python version decide is a parameter:
  the parsers of floats, UUIDs, timestamps and times (\<open>None\<close> where they raise
  \<open>ValueError\<close>, the only exception they raise on a \<open>str\<close>), the date forms other than
  \<open>YYYY-MM-DD\<close> that \<open>date.fromisoformat\<close> accepts from Python 3.11 on, the printers the row
  codec calls, and the hashing primitive. \<open>gensalt L costo i\<close> is the salt drawn by the
  \<open>i\<close>-th call of one operation.
\<close>

record biblioteca =
  float_de_str :: "string \<Rightarrow> pyfloat option"
  uuid_de_str :: "string \<Rightarrow> pyuuid option"
  datetime_fromisoformat :: "string \<Rightarrow> pydatetime option"
  time_fromisoformat :: "string \<Rightarrow> pytime option"
  date_fromisoformat_otras :: "string \<Rightarrow> pydate option"
  float_de_decimal :: "pydecimal \<Rightarrow> py_exc + pyfloat"
  str_de :: "pyval \<Rightarrow> string"
  datetime_isoformat :: "pydatetime \<Rightarrow> string"
  time_isoformat :: "pytime \<Rightarrow> string"
  decode_utf8 :: "string \<Rightarrow> string"
  gensalt :: "nat \<Rightarrow> nat \<Rightarrow> string"
  hashpw :: "string \<Rightarrow> string \<Rightarrow> py_exc + string"
  checkpw :: "string \<Rightarrow> string \<Rightarrow> py_exc + bool"

subsection \<open>\<open>int(valor)\<close>\<close>

text \<open>
  After \<open>strip\<close>: an optional sign, then digits with single underscores between them.
  (The limit of 4300 digits of Python 3.11 is left out; past it \<open>int\<close> raises
  \<open>ValueError\<close> too.)
\<close>

fun grupos_ok :: "string \<Rightarrow> bool" where
  "grupos_ok [] = False"
| "grupos_ok [c] = es_digito c"
| "grupos_ok (c # d # cs) =
     (es_digito c \<and> (if d = CHR ''_'' then grupos_ok cs else grupos_ok (d # cs)))"

definition quitar_signo :: "string \<Rightarrow> bool \<times> string" where
  "quitar_signo s =
     (case s of
        [] \<Rightarrow> (False, [])
      | c # r \<Rightarrow> if c = CHR ''-'' then (True, r) else if c = CHR ''+'' then (False, r)
                 else (False, s))"

definition py_int :: "string \<Rightarrow> int option" where
  "py_int s =
     (let (neg, r) = quitar_signo (py_strip s) in
      if grupos_ok r
      then (let n = int (valor_digitos (filter (\<lambda>c. c \<noteq> CHR ''_'') r))
            in Some (if neg then - n else n))
      else None)"

subsection \<open>\<open>Decimal(valor)\<close>\<close>

text \<open>
  \<open>Decimal\<close> strips the string, drops its underscores and matches, ignoring case, a sign
  followed by a number with at least one digit and an optional exponent, by \<open>Inf\<close> or
  \<open>Infinity\<close>, or by \<open>NaN\<close> or \<open>sNaN\<close> with diagnostic digits. On any other string it
  signals \<open>ConversionSyntax\<close>, which the default context raises as
  \<open>decimal.InvalidOperation\<close>: the result \<open>None\<close>.
\<close>

definition exponente :: "string \<Rightarrow> int option" where
  "exponente s =
     (case s of
        [] \<Rightarrow> Some 0
      | c # r \<Rightarrow>
          if c = CHR ''e'' then
            (let (neg, ds) = quitar_signo r in
             if ds \<noteq> [] \<and> list_all es_digito ds
             then Some (if neg then - int (valor_digitos ds) else int (valor_digitos ds))
             else None)
          else None)"

definition decimal_numero :: "bool \<Rightarrow> string \<Rightarrow> pydecimal option" where
  "decimal_numero neg b =
     (let ent = takeWhile es_digito b;
          r1 = dropWhile es_digito b;
          punto = (r1 \<noteq> [] \<and> hd r1 = CHR ''.'');
          frac = (if punto then takeWhile es_digito (tl r1) else []);
          r2 = (if punto then dropWhile es_digito (tl r1) else r1)
      in if ent = [] \<and> frac = [] then None
         else (case exponente r2 of
                 None \<Rightarrow> None
               | Some e \<Rightarrow> Some (Finito neg (valor_digitos (ent @ frac)) (e - int (length frac)))))"

definition py_Decimal :: "string \<Rightarrow> pydecimal option" where
  "py_Decimal s =
     (let (neg, b) = quitar_signo (py_lower (filter (\<lambda>c. c \<noteq> CHR ''_'') (py_strip s))) in
      if b = ''inf'' \<or> b = ''infinity'' then Some (Infinito neg)
      else if take 3 b = ''nan'' \<and> list_all es_digito (drop 3 b)
        then Some (NaN neg False (valor_digitos (drop 3 b)))
      else if take 4 b = ''snan'' \<and> list_all es_digito (drop 4 b)
        then Some (NaN neg True (valor_digitos (drop 4 b)))
      else decimal_numero neg b)"

subsection \<open>Dates\<close>

definition bisiesto :: "nat \<Rightarrow> bool" where
  "bisiesto y = (y mod 4 = 0 \<and> (y mod 100 \<noteq> 0 \<or> y mod 400 = 0))"

definition dias_del_mes :: "nat \<Rightarrow> nat \<Rightarrow> nat" where
  "dias_del_mes y m =
     (if m = 2 then (if bisiesto y then 29 else 28)
      else if m = 4 \<or> m = 6 \<or> m = 9 \<or> m = 11 then 30 else 31)"

definition fecha_valida :: "nat \<Rightarrow> nat \<Rightarrow> nat \<Rightarrow> bool" where
  "fecha_valida y m d = (1 \<le> y \<and> y \<le> 9999 \<and> 1 \<le> m \<and> m \<le> 12 \<and> 1 \<le> d \<and> d \<le> dias_del_mes y m)"

text \<open>The form \<open>YYYY-MM-DD\<close>: ten characters, digits around two hyphens.\<close>

definition forma_fecha :: "string \<Rightarrow> bool" where
  "forma_fecha s =
     (length s = 10 \<and> list_all es_digito (take 4 s) \<and> s ! 4 = CHR ''-'' \<and>
      list_all es_digito (take 2 (drop 5 s)) \<and> s ! 7 = CHR ''-'' \<and>
      list_all es_digito (drop 8 s))"

text \<open>
  \<open>date.fromisoformat\<close>; \<open>None\<close> is \<open>ValueError\<close>. A string of the form \<open>YYYY-MM-DD\<close> is
  a date when its numbers are one; for the other strings the Python version decides.
\<close>

definition date_fromisoformat :: "biblioteca \<Rightarrow> string \<Rightarrow> pydate option" where
  "date_fromisoformat L s =
     (if forma_fecha s then
        (let y = valor_digitos (take 4 s);
             m = valor_digitos (take 2 (drop 5 s));
             d = valor_digitos (drop 8 s)
         in if fecha_valida y m d then Some (Fecha y m d) else None)
      else date_fromisoformat_otras L s)"

text \<open>\<open>date.isoformat\<close>: \<open>'%04d-%02d-%02d'\<close>.\<close>

fun date_isoformat :: "pydate \<Rightarrow> string" where
  "date_isoformat (Fecha y m d) = rellenar 4 y @ ''-'' @ rellenar 2 m @ ''-'' @ rellenar 2 d"

fun date_de :: "pydatetime \<Rightarrow> pydate" where
  "date_de (FechaHora f h) = f"

subsection \<open>Truth values and \<open>str\<close>\<close>

text \<open>\<open>bool(v)\<close>, as \<open>if v\<close> and \<open>v and ...\<close> take it.\<close>

fun py_truthy :: "pyval \<Rightarrow> bool" where
  "py_truthy VNone = False"
| "py_truthy (VBool b) = b"
| "py_truthy (VInt n) = (n \<noteq> 0)"
| "py_truthy (VFloat (Flotante s m e)) = (m \<noteq> 0)"
| "py_truthy (VFloat f) = True"
| "py_truthy (VStr s) = (s \<noteq> [])"
| "py_truthy (VDecimal (Finito s c e)) = (c \<noteq> 0)"
| "py_truthy (VDecimal d) = True"
| "py_truthy (VTimedelta n) = (n \<noteq> 0)"
| "py_truthy (VBytes b) = (b \<noteq> [])"
| "py_truthy v = True"

text \<open>\<open>str(v)\<close>; the library prints its own classes.\<close>

fun py_str :: "biblioteca \<Rightarrow> pyval \<Rightarrow> string" where
  "py_str L VNone = ''None''"
| "py_str L (VBool b) = (if b then ''True'' else ''False'')"
| "py_str L (VInt n) = str_int n"
| "py_str L (VStr s) = s"
| "py_str L (VDate f) = date_isoformat f"
| "py_str L v = str_de L v"

text \<open>\<open>x or defecto\<close> for an optional text.\<close>

fun o_defecto :: "string option \<Rightarrow> string \<Rightarrow> string" where
  "o_defecto None d = d"
| "o_defecto (Some s) d = (if s = [] then d else s)"

section \<open>Helpers the three repositories share\<close>

text \<open>
  \<open>_extraer_solo_fecha\<close> and \<open>_es_fecha_sin_hora\<close> have the same text in the three
  repository classes. \<open>None\<close> is the \<open>ValueError\<close> of \<open>fromisoformat\<close>.
\<close>

definition extraer_solo_fecha :: "biblioteca \<Rightarrow> string \<Rightarrow> pydate option" where
  "extraer_solo_fecha L valor =
     (if CHR ''T'' \<in> set valor
      then map_option date_de (datetime_fromisoformat L (replace_Z valor))
      else date_fromisoformat L (take 10 valor))"

definition es_fecha_sin_hora :: "string \<Rightarrow> bool" where
  "es_fecha_sin_hora valor =
     (length valor = 10 \<and> count_list valor (CHR ''-'') = 2 \<and> CHR ''T'' \<notin> set valor)"

text \<open>
  The \<open>try\<close> of \<open>_convertir_valor\<close> catches \<open>ValueError\<close> and \<open>TypeError\<close> and returns the
  raw string; any other exception leaves the function.
\<close>

fun capturar :: "string \<Rightarrow> py_exc + pyval \<Rightarrow> py_exc + pyval" where
  "capturar valor (Inl ValueError) = Inr (VStr valor)"
| "capturar valor (Inl TypeError) = Inr (VStr valor)"
| "capturar valor r = r"

text \<open>A parser that raises \<open>ValueError\<close>, and \<open>Decimal\<close>, which raises \<open>InvalidOperation\<close>.\<close>

fun o_ValueError :: "('a \<Rightarrow> pyval) \<Rightarrow> 'a option \<Rightarrow> py_exc + pyval" where
  "o_ValueError f None = Inl ValueError"
| "o_ValueError f (Some x) = Inr (f x)"

fun o_InvalidOperation :: "pydecimal option \<Rightarrow> py_exc + pyval" where
  "o_InvalidOperation None = Inl InvalidOperation"
| "o_InvalidOperation (Some d) = Inr (VDecimal d)"

section \<open>Type coercion, per dialect\<close>

definition convertir_valor_sqlserver ::
  "biblioteca \<Rightarrow> string \<Rightarrow> string option \<Rightarrow> py_exc + pyval" where
  "convertir_valor_sqlserver L valor tipo_destino =
     (case tipo_destino of
        None \<Rightarrow> Inr (VStr valor)
      | Some t \<Rightarrow> capturar valor
          (if t \<in> set [''int'', ''bigint'', ''smallint'', ''tinyint'']
             then o_ValueError VInt (py_int valor)
           else if t \<in> set [''decimal'', ''numeric'', ''money'', ''smallmoney'']
             then o_InvalidOperation (py_Decimal valor)
           else if t \<in> set [''float'', ''real'']
             then o_ValueError VFloat (float_de_str L valor)
           else if t = ''bit''
             then Inr (VBool (py_lower valor \<in> set [''true'', ''1'', ''yes'', ''si'']))
           else if t = ''uniqueidentifier''
             then o_ValueError VUUID (uuid_de_str L valor)
           else if t = ''date''
             then o_ValueError VDate (extraer_solo_fecha L valor)
           else if t \<in> set [''datetime'', ''datetime2'', ''smalldatetime'']
             then o_ValueError VDateTime (datetime_fromisoformat L (replace_Z valor))
           else if t = ''time''
             then o_ValueError VTime (time_fromisoformat L valor)
           else Inr (VStr valor)))"

definition convertir_valor_postgresql ::
  "biblioteca \<Rightarrow> string \<Rightarrow> string option \<Rightarrow> py_exc + pyval" where
  "convertir_valor_postgresql L valor tipo_destino =
     (case tipo_destino of
        None \<Rightarrow> Inr (VStr valor)
      | Some t \<Rightarrow> capturar valor
          (if t \<in> set [''integer'', ''int4'', ''bigint'', ''int8'', ''smallint'', ''int2'']
             then o_ValueError VInt (py_int valor)
           else if t \<in> set [''numeric'', ''decimal'']
             then o_InvalidOperation (py_Decimal valor)
           else if t \<in> set [''real'', ''float4'', ''double precision'', ''float8'']
             then o_ValueError VFloat (float_de_str L valor)
           else if t \<in> set [''boolean'', ''bool'']
             then Inr (VBool (py_lower valor \<in> set [''true'', ''1'', ''yes'', ''si'', ''t'']))
           else if t = ''uuid''
             then o_ValueError VUUID (uuid_de_str L valor)
           else if t = ''date''
             then o_ValueError VDate (extraer_solo_fecha L valor)
           else if t \<in> set [''timestamp without time zone'', ''timestamp with time zone'']
             then o_ValueError VDateTime (datetime_fromisoformat L (replace_Z valor))
           else if t = ''time''
             then o_ValueError VTime (time_fromisoformat L valor)
           else Inr (VStr valor)))"

definition convertir_valor_mysql ::
  "biblioteca \<Rightarrow> string \<Rightarrow> string option \<Rightarrow> py_exc + pyval" where
  "convertir_valor_mysql L valor tipo_destino =
     (case tipo_destino of
        None \<Rightarrow> Inr (VStr valor)
      | Some t \<Rightarrow> capturar valor
          (if t \<in> set [''int'', ''integer'', ''bigint'', ''smallint'', ''tinyint'', ''mediumint'']
             then o_ValueError VInt (py_int valor)
           else if t \<in> set [''decimal'', ''numeric'']
             then o_InvalidOperation (py_Decimal valor)
           else if t \<in> set [''float'', ''double'', ''real'']
             then o_ValueError VFloat (float_de_str L valor)
           else if t = ''bit''
             then Inr (VBool (py_lower valor \<in> set [''true'', ''1'', ''yes'', ''si'']))
           else if t = ''date''
             then o_ValueError VDate (extraer_solo_fecha L valor)
           else if t \<in> set [''datetime'', ''timestamp'']
             then o_ValueError VDateTime (datetime_fromisoformat L (replace_Z valor))
           else if t = ''time''
             then o_ValueError VTime (time_fromisoformat L valor)
           else Inr (VStr valor)))"

section \<open>The database\<close>

text \<open>
  A statement as \<open>conn.execute\<close> receives it: the SQL text and the bound parameters. The
  database is a function from the statement to what the driver answers: an exception
  (also when no engine or connection can be had), or the result's column names, rows and
  row count. One operation reads the catalog and then runs one statement, so the database
  does not change between its calls.
\<close>

record sentencia =
  sql :: string
  parametros :: pydict

record resultado =
  columnas :: "string list"
  filas :: "pyval list list"
  rowcount :: int

type_synonym base_datos = "sentencia \<Rightarrow> py_exc + resultado"

definition fetchone :: "resultado \<Rightarrow> pyval list option" where
  "fetchone r = (case filas r of [] \<Rightarrow> None | fila # _ \<Rightarrow> Some fila)"

text \<open>
  A triple-quoted SQL text: every line after a line break and \<open>n\<close> spaces, and the closing
  quotes four columns to the left.
\<close>

definition plantilla :: "nat \<Rightarrow> string list \<Rightarrow> string" where
  "plantilla n lineas =
     concat (map (\<lambda>l. [CHR 0x0A] @ replicate n (CHR '' '') @ l) lineas) @
     [CHR 0x0A] @ replicate (n - 4) (CHR '' '')"

definition comillas :: string where
  "comillas = [CHR 0x22]"

definition acento :: string where
  "acento = [CHR 0x60]"

text \<open>An exception inside the \<open>try\<close> of an operation leaves it as a \<open>RuntimeError\<close>.\<close>

fun envolver :: "py_exc + 'a \<Rightarrow> py_exc + 'a" where
  "envolver (Inl ex) = Inl (RuntimeError ex)"
| "envolver (Inr x) = Inr x"

text \<open>
  Every operation is split at its \<open>conn.execute\<close>: \<open>op_sentencia\<close> is the operation up to
  the statement it sends, \<open>ejecutar\<close> sends it and hands the result to the rest.
\<close>

definition ejecutar ::
  "base_datos \<Rightarrow> (resultado \<Rightarrow> py_exc + 'a) \<Rightarrow> py_exc + sentencia \<Rightarrow> py_exc + 'a" where
  "ejecutar db despues s =
     (case s of
        Inl ex \<Rightarrow> Inl ex
      | Inr st \<Rightarrow> envolver (case db st of Inl ex \<Rightarrow> Inl ex | Inr r \<Rightarrow> despues r))"

text \<open>\<open>limite or 1000\<close>\<close>

fun o_limite :: "int option \<Rightarrow> int" where
  "o_limite None = 1000"
| "o_limite (Some n) = (if n = 0 then 1000 else n)"

section \<open>Catalog introspection\<close>

text \<open>
  \<open>row[0].lower() if row else None\<close> under \<open>except Exception: return None\<close>: a cell
  that is no \<open>str\<close> has no \<open>lower\<close>, and the \<open>AttributeError\<close> is swallowed.
\<close>

fun tipo_de_fila :: "pyval list option \<Rightarrow> string option" where
  "tipo_de_fila None = None"
| "tipo_de_fila (Some []) = None"
| "tipo_de_fila (Some (VStr t # _)) = Some (py_lower t)"
| "tipo_de_fila (Some (_ # _)) = None"

definition consulta_catalogo_sqlserver :: "string \<Rightarrow> string \<Rightarrow> string \<Rightarrow> sentencia" where
  "consulta_catalogo_sqlserver nombre_tabla esquema nombre_columna =
     \<lparr>sql = plantilla 12
        [''SELECT DATA_TYPE'',
         ''FROM INFORMATION_SCHEMA.COLUMNS'',
         ''WHERE TABLE_SCHEMA = :esquema'',
         ''AND TABLE_NAME = :tabla'',
         ''AND COLUMN_NAME = :columna''],
      parametros = [(''esquema'', VStr esquema), (''tabla'', VStr nombre_tabla),
                    (''columna'', VStr nombre_columna)]\<rparr>"

definition detectar_tipo_columna_sqlserver ::
  "base_datos \<Rightarrow> string \<Rightarrow> string \<Rightarrow> string \<Rightarrow> string option" where
  "detectar_tipo_columna_sqlserver db nombre_tabla esquema nombre_columna =
     (case db (consulta_catalogo_sqlserver nombre_tabla esquema nombre_columna) of
        Inl ex \<Rightarrow> None
      | Inr result \<Rightarrow> tipo_de_fila (fetchone result))"

definition consulta_catalogo_postgresql :: "string \<Rightarrow> string \<Rightarrow> string \<Rightarrow> sentencia" where
  "consulta_catalogo_postgresql nombre_tabla esquema nombre_columna =
     \<lparr>sql = plantilla 12
        [''SELECT data_type, udt_name'',
         ''FROM information_schema.columns'',
         ''WHERE table_schema = :esquema'',
         ''AND table_name = :tabla'',
         ''AND column_name = :columna''],
      parametros = [(''esquema'', VStr esquema), (''tabla'', VStr nombre_tabla),
                    (''columna'', VStr nombre_columna)]\<rparr>"

definition detectar_tipo_columna_postgresql ::
  "base_datos \<Rightarrow> string \<Rightarrow> string \<Rightarrow> string \<Rightarrow> string option" where
  "detectar_tipo_columna_postgresql db nombre_tabla esquema nombre_columna =
     (case db (consulta_catalogo_postgresql nombre_tabla esquema nombre_columna) of
        Inl ex \<Rightarrow> None
      | Inr result \<Rightarrow> tipo_de_fila (fetchone result))"

definition consulta_catalogo_mysql :: "string \<Rightarrow> string \<Rightarrow> sentencia" where
  "consulta_catalogo_mysql nombre_tabla nombre_columna =
     \<lparr>sql = plantilla 12
        [''SELECT DATA_TYPE'',
         ''FROM information_schema.columns'',
         ''WHERE TABLE_SCHEMA = DATABASE()'',
         ''AND TABLE_NAME = :tabla'',
         ''AND COLUMN_NAME = :columna''],
      parametros = [(''tabla'', VStr nombre_tabla), (''columna'', VStr nombre_columna)]\<rparr>"

definition detectar_tipo_columna_mysql ::
  "base_datos \<Rightarrow> string \<Rightarrow> string \<Rightarrow> string option" where
  "detectar_tipo_columna_mysql db nombre_tabla nombre_columna =
     (case db (consulta_catalogo_mysql nombre_tabla nombre_columna) of
        Inl ex \<Rightarrow> None
      | Inr result \<Rightarrow> tipo_de_fila (fetchone result))"

section \<open>The row codec\<close>

text \<open>
  SQL Server serialises in line, PostgreSQL and MySQL/MariaDB in \<open>_serializar_valor\<close>.
  \<open>float(Decimal)\<close> can raise (a signalling NaN), so the codec can.
\<close>

fun a_float :: "biblioteca \<Rightarrow> pydecimal \<Rightarrow> py_exc + pyval" where
  "a_float L d = (case float_de_decimal L d of Inl ex \<Rightarrow> Inl ex | Inr f \<Rightarrow> Inr (VFloat f))"

fun serializar_valor_sqlserver :: "biblioteca \<Rightarrow> pyval \<Rightarrow> py_exc + pyval" where
  "serializar_valor_sqlserver L (VDateTime d) = Inr (VStr (datetime_isoformat L d))"
| "serializar_valor_sqlserver L (VDate f) = Inr (VStr (date_isoformat f))"
| "serializar_valor_sqlserver L (VDecimal d) = a_float L d"
| "serializar_valor_sqlserver L (VUUID u) = Inr (VStr (str_de L (VUUID u)))"
| "serializar_valor_sqlserver L v = Inr v"

fun serializar_valor_postgresql :: "biblioteca \<Rightarrow> pyval \<Rightarrow> py_exc + pyval" where
  "serializar_valor_postgresql L (VDateTime d) = Inr (VStr (datetime_isoformat L d))"
| "serializar_valor_postgresql L (VDate f) = Inr (VStr (date_isoformat f))"
| "serializar_valor_postgresql L (VDecimal d) = a_float L d"
| "serializar_valor_postgresql L (VUUID u) = Inr (VStr (str_de L (VUUID u)))"
| "serializar_valor_postgresql L v = Inr v"

fun serializar_valor_mysql :: "biblioteca \<Rightarrow> pyval \<Rightarrow> py_exc + pyval" where
  "serializar_valor_mysql L (VDateTime d) = Inr (VStr (datetime_isoformat L d))"
| "serializar_valor_mysql L (VDate f) = Inr (VStr (date_isoformat f))"
| "serializar_valor_mysql L (VTime h) = Inr (VStr (time_isoformat L h))"
| "serializar_valor_mysql L (VTimedelta n) = Inr (VStr (str_de L (VTimedelta n)))"
| "serializar_valor_mysql L (VDecimal d) = a_float L d"
| "serializar_valor_mysql L (VBytes b) = Inr (VStr (decode_utf8 L b))"
| "serializar_valor_mysql L v = Inr v"

text \<open>
  One result row as a dictionary, column by column (a row has a cell for every column),
  and all the rows.
\<close>

fun codificar_fila ::
  "(pyval \<Rightarrow> py_exc + pyval) \<Rightarrow> (string \<times> pyval) list \<Rightarrow> pydict \<Rightarrow> py_exc + pydict" where
  "codificar_fila ser [] fila = Inr fila"
| "codificar_fila ser ((columna, v) # resto) fila =
     (case ser v of
        Inl ex \<Rightarrow> Inl ex
      | Inr w \<Rightarrow> codificar_fila ser resto (AList.update columna w fila))"

fun codificar_filas ::
  "(pyval \<Rightarrow> py_exc + pyval) \<Rightarrow> string list \<Rightarrow> pyval list list \<Rightarrow> py_exc + pydict list" where
  "codificar_filas ser cols [] = Inr []"
| "codificar_filas ser cols (row # rows) =
     (case codificar_fila ser (zip cols row) [] of
        Inl ex \<Rightarrow> Inl ex
      | Inr fila \<Rightarrow>
          (case codificar_filas ser cols rows of
             Inl ex \<Rightarrow> Inl ex
           | Inr fs \<Rightarrow> Inr (fila # fs)))"

definition codificar :: "(pyval \<Rightarrow> py_exc + pyval) \<Rightarrow> resultado \<Rightarrow> py_exc + pydict list" where
  "codificar ser result = codificar_filas ser (columnas result) (filas result)"

section \<open>Listing\<close>

definition obtener_filas_sqlserver_sentencia ::
  "string \<Rightarrow> string option \<Rightarrow> int option \<Rightarrow> py_exc + sentencia" where
  "obtener_filas_sqlserver_sentencia nombre_tabla esquema limite =
     (if vacio nombre_tabla then Inl ValueError
      else
        let esquema_final = py_strip (o_defecto esquema ''dbo'');
            limite_final = o_limite limite
        in Inr \<lparr>sql = ''SELECT TOP ('' @ str_int limite_final @ '') * FROM ['' @
                        esquema_final @ ''].['' @ nombre_tabla @ '']'',
                 parametros = []\<rparr>)"

definition obtener_filas_sqlserver ::
  "biblioteca \<Rightarrow> base_datos \<Rightarrow> string \<Rightarrow> string option \<Rightarrow> int option \<Rightarrow> py_exc + pydict list" where
  "obtener_filas_sqlserver L db nombre_tabla esquema limite =
     ejecutar db (codificar (serializar_valor_sqlserver L))
       (obtener_filas_sqlserver_sentencia nombre_tabla esquema limite)"

definition obtener_filas_postgresql_sentencia ::
  "string \<Rightarrow> string option \<Rightarrow> int option \<Rightarrow> py_exc + sentencia" where
  "obtener_filas_postgresql_sentencia nombre_tabla esquema limite =
     (if vacio nombre_tabla then Inl ValueError
      else
        let esquema_final = py_strip (o_defecto esquema ''public'');
            limite_final = o_limite limite
        in Inr \<lparr>sql = ''SELECT * FROM '' @ comillas @ esquema_final @ comillas @ ''.'' @
                        comillas @ nombre_tabla @ comillas @ '' LIMIT :limite'',
                 parametros = [(''limite'', VInt limite_final)]\<rparr>)"

definition obtener_filas_postgresql ::
  "biblioteca \<Rightarrow> base_datos \<Rightarrow> string \<Rightarrow> string option \<Rightarrow> int option \<Rightarrow> py_exc + pydict list" where
  "obtener_filas_postgresql L db nombre_tabla esquema limite =
     ejecutar db (codificar (serializar_valor_postgresql L))
       (obtener_filas_postgresql_sentencia nombre_tabla esquema limite)"

text \<open>\<open>f"`{esquema}`." if esquema else ""\<close>\<close>

fun prefijo_esquema :: "string option \<Rightarrow> string" where
  "prefijo_esquema None = []"
| "prefijo_esquema (Some e) = (if e = [] then [] else acento @ e @ acento @ ''.'')"

definition obtener_filas_mysql_sentencia ::
  "string \<Rightarrow> string option \<Rightarrow> int option \<Rightarrow> py_exc + sentencia" where
  "obtener_filas_mysql_sentencia nombre_tabla esquema limite =
     (if vacio nombre_tabla then Inl ValueError
      else
        let limite_final = o_limite limite
        in Inr \<lparr>sql = ''SELECT * FROM '' @ prefijo_esquema esquema @
                        acento @ nombre_tabla @ acento @ '' LIMIT :limite'',
                 parametros = [(''limite'', VInt limite_final)]\<rparr>)"

definition obtener_filas_mysql ::
  "biblioteca \<Rightarrow> base_datos \<Rightarrow> string \<Rightarrow> string option \<Rightarrow> int option \<Rightarrow> py_exc + pydict list" where
  "obtener_filas_mysql L db nombre_tabla esquema limite =
     ejecutar db (codificar (serializar_valor_mysql L))
       (obtener_filas_mysql_sentencia nombre_tabla esquema limite)"

section \<open>Filtering by key\<close>

text \<open>A call that raises \<open>ValueError\<close> inside the \<open>try\<close>, or gives the value to bind.\<close>

fun fecha_o_error :: "pydate option \<Rightarrow> py_exc + pyval" where
  "fecha_o_error None = Inl ValueError"
| "fecha_o_error (Some f) = Inr (VDate f)"

fun con_valor :: "string \<Rightarrow> string \<Rightarrow> py_exc + pyval \<Rightarrow> py_exc + sentencia" where
  "con_valor texto nombre (Inl ex) = Inl ex"
| "con_valor texto nombre (Inr v) = Inr \<lparr>sql = texto, parametros = [(nombre, v)]\<rparr>"

definition obtener_por_clave_sqlserver_sentencia ::
  "biblioteca \<Rightarrow> base_datos \<Rightarrow> string \<Rightarrow> string \<Rightarrow> string \<Rightarrow> string option \<Rightarrow> py_exc + sentencia" where
  "obtener_por_clave_sqlserver_sentencia L db nombre_tabla nombre_clave valor esquema =
     (if vacio nombre_tabla then Inl ValueError
      else if vacio nombre_clave then Inl ValueError
      else if vacio valor then Inl ValueError
      else
        let esquema_final = py_strip (o_defecto esquema ''dbo'');
            tipo_columna = detectar_tipo_columna_sqlserver db nombre_tabla esquema_final nombre_clave
        in envolver
          (if tipo_columna \<in> set [Some ''datetime'', Some ''datetime2''] \<and> es_fecha_sin_hora valor
           then con_valor
             (plantilla 20
               [''SELECT * FROM ['' @ esquema_final @ ''].['' @ nombre_tabla @ '']'',
                ''WHERE CAST(['' @ nombre_clave @ ''] AS DATE) = :valor''])
             ''valor'' (fecha_o_error (extraer_solo_fecha L valor))
           else con_valor
             (plantilla 20
               [''SELECT * FROM ['' @ esquema_final @ ''].['' @ nombre_tabla @ '']'',
                ''WHERE ['' @ nombre_clave @ ''] = :valor''])
             ''valor'' (convertir_valor_sqlserver L valor tipo_columna)))"

definition obtener_por_clave_sqlserver ::
  "biblioteca \<Rightarrow> base_datos \<Rightarrow> string \<Rightarrow> string \<Rightarrow> string \<Rightarrow> string option \<Rightarrow> py_exc + pydict list" where
  "obtener_por_clave_sqlserver L db nombre_tabla nombre_clave valor esquema =
     ejecutar db (codificar (serializar_valor_sqlserver L))
       (obtener_por_clave_sqlserver_sentencia L db nombre_tabla nombre_clave valor esquema)"

definition obtener_por_clave_postgresql_sentencia ::
  "biblioteca \<Rightarrow> base_datos \<Rightarrow> string \<Rightarrow> string \<Rightarrow> string \<Rightarrow> string option \<Rightarrow> py_exc + sentencia" where
  "obtener_por_clave_postgresql_sentencia L db nombre_tabla nombre_clave valor esquema =
     (if vacio nombre_tabla then Inl ValueError
      else if vacio nombre_clave then Inl ValueError
      else if vacio valor then Inl ValueError
      else
        let esquema_final = py_strip (o_defecto esquema ''public'');
            tipo_columna = detectar_tipo_columna_postgresql db nombre_tabla esquema_final nombre_clave
        in envolver
          (if tipo_columna \<in> set [Some ''timestamp without time zone'',
                                   Some ''timestamp with time zone''] \<and> es_fecha_sin_hora valor
           then con_valor
             (plantilla 20
               [''SELECT * FROM '' @ comillas @ esquema_final @ comillas @ ''.'' @
                  comillas @ nombre_tabla @ comillas,
                ''WHERE CAST('' @ comillas @ nombre_clave @ comillas @ '' AS DATE) = :valor''])
             ''valor'' (fecha_o_error (extraer_solo_fecha L valor))
           else con_valor
             (plantilla 20
               [''SELECT * FROM '' @ comillas @ esquema_final @ comillas @ ''.'' @
                  comillas @ nombre_tabla @ comillas,
                ''WHERE '' @ comillas @ nombre_clave @ comillas @ '' = :valor''])
             ''valor'' (convertir_valor_postgresql L valor tipo_columna)))"

definition obtener_por_clave_postgresql ::
  "biblioteca \<Rightarrow> base_datos \<Rightarrow> string \<Rightarrow> string \<Rightarrow> string \<Rightarrow> string option \<Rightarrow> py_exc + pydict list" where
  "obtener_por_clave_postgresql L db nombre_tabla nombre_clave valor esquema =
     ejecutar db (codificar (serializar_valor_postgresql L))
       (obtener_por_clave_postgresql_sentencia L db nombre_tabla nombre_clave valor esquema)"

definition obtener_por_clave_mysql_sentencia ::
  "biblioteca \<Rightarrow> base_datos \<Rightarrow> string \<Rightarrow> string \<Rightarrow> string \<Rightarrow> string option \<Rightarrow> py_exc + sentencia" where
  "obtener_por_clave_mysql_sentencia L db nombre_tabla nombre_clave valor esquema =
     (if vacio nombre_tabla then Inl ValueError
      else if vacio nombre_clave then Inl ValueError
      else if vacio valor then Inl ValueError
      else
        let tipo_columna = detectar_tipo_columna_mysql db nombre_tabla nombre_clave
        in envolver
          (if tipo_columna \<in> set [Some ''datetime'', Some ''timestamp''] \<and> es_fecha_sin_hora valor
           then con_valor
             (plantilla 20
               [''SELECT * FROM '' @ prefijo_esquema esquema @ acento @ nombre_tabla @ acento,
                ''WHERE DATE('' @ acento @ nombre_clave @ acento @ '') = :valor''])
             ''valor'' (fecha_o_error (extraer_solo_fecha L valor))
           else con_valor
             (plantilla 20
               [''SELECT * FROM '' @ prefijo_esquema esquema @ acento @ nombre_tabla @ acento,
                ''WHERE '' @ acento @ nombre_clave @ acento @ '' = :valor''])
             ''valor'' (convertir_valor_mysql L valor tipo_columna)))"

definition obtener_por_clave_mysql ::
  "biblioteca \<Rightarrow> base_datos \<Rightarrow> string \<Rightarrow> string \<Rightarrow> string \<Rightarrow> string option \<Rightarrow> py_exc + pydict list" where
  "obtener_por_clave_mysql L db nombre_tabla nombre_clave valor esquema =
     ejecutar db (codificar (serializar_valor_mysql L))
       (obtener_por_clave_mysql_sentencia L db nombre_tabla nombre_clave valor esquema)"

section \<open>Hashing\<close>

text \<open>
  \<open>encriptar\<close> and \<open>verificar\<close> of \<open>encriptacion_bcrypt.py\<close>. Encoding to UTF-8 and
  decoding the hash are part of \<open>hashpw\<close> and \<open>checkpw\<close>; \<open>i\<close> counts the salts drawn.
\<close>

definition COSTO_POR_DEFECTO :: nat where
  "COSTO_POR_DEFECTO = 12"

definition encriptar :: "biblioteca \<Rightarrow> nat \<Rightarrow> string \<Rightarrow> nat \<Rightarrow> py_exc + string" where
  "encriptar L i valor_original costo =
     (if vacio valor_original then Inl ValueError
      else if \<not> (4 \<le> costo \<and> costo \<le> 31) then Inl ValueError
      else hashpw L valor_original (gensalt L costo i))"

definition verificar :: "biblioteca \<Rightarrow> string \<Rightarrow> string \<Rightarrow> py_exc + bool" where
  "verificar L valor_original hash_existente =
     (if vacio valor_original then Inl ValueError
      else if vacio hash_existente then Inl ValueError
      else (case checkpw L valor_original hash_existente of
              Inl ex \<Rightarrow> Inr False
            | Inr b \<Rightarrow> Inr b))"

section \<open>Payload dictionaries on the heap\<close>

text \<open>
  A payload is a \<open>dict\<close> object the caller owns. The heap lists the dictionaries, an
  address is a position in it, and a dictionary is its items in insertion order.
  \<open>dict(datos)\<close> allocates a new object with the same items; \<open>d[k] = v\<close> writes in place.
\<close>

type_synonym heap = "pydict list"

definition dict_copia :: "heap \<Rightarrow> nat \<Rightarrow> nat \<times> heap" where
  "dict_copia h a = (length h, h @ [h ! a])"

definition dict_set :: "heap \<Rightarrow> nat \<Rightarrow> string \<Rightarrow> pyval \<Rightarrow> heap" where
  "dict_set h a k v = h[a := AList.update k v (h ! a)]"

text \<open>
  The encryption block, the same text in \<open>crear\<close> and \<open>actualizar\<close> of the three
  repositories: the directive's tokens, and the loop over \<open>list(datos_finales.keys())\<close>
  that replaces a truthy value of a named field by the hash of its \<open>str\<close>. An exception of
  \<open>encriptar\<close> ends the operation there.
\<close>

definition campos_a_encriptar :: "string \<Rightarrow> string list" where
  "campos_a_encriptar campos_encriptar =
     map (\<lambda>c. py_lower (py_strip c)) (filter (\<lambda>c. py_strip c \<noteq> []) (split_coma campos_encriptar))"

fun cifrar_campos ::
  "biblioteca \<Rightarrow> string list \<Rightarrow> nat \<Rightarrow> string list \<Rightarrow> nat \<Rightarrow> heap \<Rightarrow> py_exc option \<times> heap" where
  "cifrar_campos L campos datos_finales [] i h = (None, h)"
| "cifrar_campos L campos datos_finales (campo # resto) i h =
     (case map_of (h ! datos_finales) campo of
        None \<Rightarrow> (Some KeyError, h)
      | Some v \<Rightarrow>
          if py_lower campo \<in> set campos \<and> py_truthy v then
            (case encriptar L i (py_str L v) COSTO_POR_DEFECTO of
               Inl ex \<Rightarrow> (Some ex, h)
             | Inr hash \<Rightarrow>
                 cifrar_campos L campos datos_finales resto (Suc i)
                   (dict_set h datos_finales campo (VStr hash)))
          else cifrar_campos L campos datos_finales resto i h)"

definition cifrar_datos ::
  "biblioteca \<Rightarrow> string option \<Rightarrow> nat \<Rightarrow> heap \<Rightarrow> py_exc option \<times> heap" where
  "cifrar_datos L campos_encriptar datos_finales h =
     (case campos_encriptar of
        None \<Rightarrow> (None, h)
      | Some s \<Rightarrow>
          if s = [] then (None, h)
          else cifrar_campos L (campos_a_encriptar s) datos_finales
                 (map fst (h ! datos_finales)) 0 h)"

text \<open>
  The loop that fills \<open>valores\<close>: a \<open>str\<close> value is coerced to the catalog type of its
  column, any other value is bound as it is. The dialects differ in the parameter's name
  and in the coercion.
\<close>

fun ligar_valores ::
  "(string \<Rightarrow> string) \<Rightarrow> (string \<Rightarrow> string \<Rightarrow> py_exc + pyval) \<Rightarrow> pydict \<Rightarrow> pydict \<Rightarrow>
   py_exc + pydict" where
  "ligar_valores nombre conv [] valores = Inr valores"
| "ligar_valores nombre conv ((key, VStr val) # resto) valores =
     (case conv key val of
        Inl ex \<Rightarrow> Inl ex
      | Inr v \<Rightarrow> ligar_valores nombre conv resto (AList.update (nombre key) v valores))"
| "ligar_valores nombre conv ((key, val) # resto) valores =
     ligar_valores nombre conv resto (AList.update (nombre key) val valores)"

fun con_valores :: "string \<Rightarrow> py_exc + pydict \<Rightarrow> py_exc + sentencia" where
  "con_valores texto (Inl ex) = Inl ex"
| "con_valores texto (Inr valores) = Inr \<lparr>sql = texto, parametros = valores\<rparr>"

text \<open>\<open>valores["valor_clave"] = ...\<close> after the loop, with a value that may raise.\<close>

fun con_clave :: "py_exc + pyval \<Rightarrow> py_exc + pydict \<Rightarrow> py_exc + pydict" where
  "con_clave c (Inl ex) = Inl ex"
| "con_clave (Inl ex) (Inr valores) = Inl ex"
| "con_clave (Inr v) (Inr valores) = Inr (AList.update ''valor_clave'' v valores)"

section \<open>Inserting\<close>

definition crear_sqlserver_sentencia ::
  "biblioteca \<Rightarrow> base_datos \<Rightarrow> heap \<Rightarrow> string \<Rightarrow> nat \<Rightarrow> string option \<Rightarrow> string option \<Rightarrow>
   (py_exc + sentencia) \<times> heap" where
  "crear_sqlserver_sentencia L db h nombre_tabla datos esquema campos_encriptar =
     (if vacio nombre_tabla then (Inl ValueError, h)
      else if h ! datos = [] then (Inl ValueError, h)
      else
        let esquema_final = py_strip (o_defecto esquema ''dbo'');
            (datos_finales, h1) = dict_copia h datos;
            (error, h2) = cifrar_datos L campos_encriptar datos_finales h1
        in case error of
             Some ex \<Rightarrow> (Inl ex, h2)
           | None \<Rightarrow>
               let claves = map fst (h2 ! datos_finales);
                   columnas = join '', '' (map (\<lambda>k. ''['' @ k @ '']'') claves);
                   params = join '', '' (map (\<lambda>k. '':'' @ k) claves);
                   texto = ''INSERT INTO ['' @ esquema_final @ ''].['' @ nombre_tabla @
                           ''] ('' @ columnas @ '') VALUES ('' @ params @ '')''
               in (envolver (con_valores texto
                     (ligar_valores (\<lambda>k. k)
                        (\<lambda>key val. convertir_valor_sqlserver L val
                           (detectar_tipo_columna_sqlserver db nombre_tabla esquema_final key))
                        (h2 ! datos_finales) [])), h2))"

definition crear_sqlserver ::
  "biblioteca \<Rightarrow> base_datos \<Rightarrow> heap \<Rightarrow> string \<Rightarrow> nat \<Rightarrow> string option \<Rightarrow> string option \<Rightarrow>
   (py_exc + bool) \<times> heap" where
  "crear_sqlserver L db h nombre_tabla datos esquema campos_encriptar =
     (let (s, h') = crear_sqlserver_sentencia L db h nombre_tabla datos esquema campos_encriptar
      in (ejecutar db (\<lambda>result. Inr (rowcount result > 0)) s, h'))"

definition crear_postgresql_sentencia ::
  "biblioteca \<Rightarrow> base_datos \<Rightarrow> heap \<Rightarrow> string \<Rightarrow> nat \<Rightarrow> string option \<Rightarrow> string option \<Rightarrow>
   (py_exc + sentencia) \<times> heap" where
  "crear_postgresql_sentencia L db h nombre_tabla datos esquema campos_encriptar =
     (if vacio nombre_tabla then (Inl ValueError, h)
      else if h ! datos = [] then (Inl ValueError, h)
      else
        let esquema_final = py_strip (o_defecto esquema ''public'');
            (datos_finales, h1) = dict_copia h datos;
            (error, h2) = cifrar_datos L campos_encriptar datos_finales h1
        in case error of
             Some ex \<Rightarrow> (Inl ex, h2)
           | None \<Rightarrow>
               let claves = map fst (h2 ! datos_finales);
                   columnas = join '', '' (map (\<lambda>k. comillas @ k @ comillas) claves);
                   params = join '', '' (map (\<lambda>k. '':'' @ k) claves);
                   texto = ''INSERT INTO '' @ comillas @ esquema_final @ comillas @ ''.'' @
                           comillas @ nombre_tabla @ comillas @
                           '' ('' @ columnas @ '') VALUES ('' @ params @ '')''
               in (envolver (con_valores texto
                     (ligar_valores (\<lambda>k. k)
                        (\<lambda>key val. convertir_valor_postgresql L val
                           (detectar_tipo_columna_postgresql db nombre_tabla esquema_final key))
                        (h2 ! datos_finales) [])), h2))"

definition crear_postgresql ::
  "biblioteca \<Rightarrow> base_datos \<Rightarrow> heap \<Rightarrow> string \<Rightarrow> nat \<Rightarrow> string option \<Rightarrow> string option \<Rightarrow>
   (py_exc + bool) \<times> heap" where
  "crear_postgresql L db h nombre_tabla datos esquema campos_encriptar =
     (let (s, h') = crear_postgresql_sentencia L db h nombre_tabla datos esquema campos_encriptar
      in (ejecutar db (\<lambda>result. Inr (rowcount result > 0)) s, h'))"

definition crear_mysql_sentencia ::
  "biblioteca \<Rightarrow> base_datos \<Rightarrow> heap \<Rightarrow> string \<Rightarrow> nat \<Rightarrow> string option \<Rightarrow> string option \<Rightarrow>
   (py_exc + sentencia) \<times> heap" where
  "crear_mysql_sentencia L db h nombre_tabla datos esquema campos_encriptar =
     (if vacio nombre_tabla then (Inl ValueError, h)
      else if h ! datos = [] then (Inl ValueError, h)
      else
        let (datos_finales, h1) = dict_copia h datos;
            (error, h2) = cifrar_datos L campos_encriptar datos_finales h1
        in case error of
             Some ex \<Rightarrow> (Inl ex, h2)
           | None \<Rightarrow>
               let claves = map fst (h2 ! datos_finales);
                   columnas = join '', '' (map (\<lambda>k. acento @ k @ acento) claves);
                   params = join '', '' (map (\<lambda>k. '':p_'' @ k) claves);
                   texto = ''INSERT INTO '' @ prefijo_esquema esquema @
                           acento @ nombre_tabla @ acento @
                           '' ('' @ columnas @ '') VALUES ('' @ params @ '')''
               in (envolver (con_valores texto
                     (ligar_valores (\<lambda>k. ''p_'' @ k)
                        (\<lambda>key val. convertir_valor_mysql L val
                           (detectar_tipo_columna_mysql db nombre_tabla key))
                        (h2 ! datos_finales) [])), h2))"

definition crear_mysql ::
  "biblioteca \<Rightarrow> base_datos \<Rightarrow> heap \<Rightarrow> string \<Rightarrow> nat \<Rightarrow> string option \<Rightarrow> string option \<Rightarrow>
   (py_exc + bool) \<times> heap" where
  "crear_mysql L db h nombre_tabla datos esquema campos_encriptar =
     (let (s, h') = crear_mysql_sentencia L db h nombre_tabla datos esquema campos_encriptar
      in (ejecutar db (\<lambda>result. Inr (rowcount result > 0)) s, h'))"

section \<open>Updating\<close>

definition actualizar_sqlserver_sentencia ::
  "biblioteca \<Rightarrow> base_datos \<Rightarrow> heap \<Rightarrow> string \<Rightarrow> string \<Rightarrow> string \<Rightarrow> nat \<Rightarrow> string option \<Rightarrow>
   string option \<Rightarrow> (py_exc + sentencia) \<times> heap" where
  "actualizar_sqlserver_sentencia L db h nombre_tabla nombre_clave valor_clave datos esquema
     campos_encriptar =
     (if vacio nombre_tabla then (Inl ValueError, h)
      else if vacio nombre_clave then (Inl ValueError, h)
      else if vacio valor_clave then (Inl ValueError, h)
      else if h ! datos = [] then (Inl ValueError, h)
      else
        let esquema_final = py_strip (o_defecto esquema ''dbo'');
            (datos_finales, h1) = dict_copia h datos;
            (error, h2) = cifrar_datos L campos_encriptar datos_finales h1
        in case error of
             Some ex \<Rightarrow> (Inl ex, h2)
           | None \<Rightarrow>
               let claves = map fst (h2 ! datos_finales);
                   clausula_set = join '', '' (map (\<lambda>k. ''['' @ k @ ''] = :'' @ k) claves);
                   texto = plantilla 12
                     [''UPDATE ['' @ esquema_final @ ''].['' @ nombre_tabla @ '']'',
                      ''SET '' @ clausula_set,
                      ''WHERE ['' @ nombre_clave @ ''] = :valor_clave'']
               in (envolver (con_valores texto
                     (con_clave
                        (convertir_valor_sqlserver L valor_clave
                           (detectar_tipo_columna_sqlserver db nombre_tabla esquema_final nombre_clave))
                        (ligar_valores (\<lambda>k. k)
                           (\<lambda>key val. convertir_valor_sqlserver L val
                              (detectar_tipo_columna_sqlserver db nombre_tabla esquema_final key))
                           (h2 ! datos_finales) []))), h2))"

definition actualizar_sqlserver ::
  "biblioteca \<Rightarrow> base_datos \<Rightarrow> heap \<Rightarrow> string \<Rightarrow> string \<Rightarrow> string \<Rightarrow> nat \<Rightarrow> string option \<Rightarrow>
   string option \<Rightarrow> (py_exc + int) \<times> heap" where
  "actualizar_sqlserver L db h nombre_tabla nombre_clave valor_clave datos esquema
     campos_encriptar =
     (let (s, h') = actualizar_sqlserver_sentencia L db h nombre_tabla nombre_clave valor_clave
                      datos esquema campos_encriptar
      in (ejecutar db (\<lambda>result. Inr (rowcount result)) s, h'))"

definition actualizar_postgresql_sentencia ::
  "biblioteca \<Rightarrow> base_datos \<Rightarrow> heap \<Rightarrow> string \<Rightarrow> string \<Rightarrow> string \<Rightarrow> nat \<Rightarrow> string option \<Rightarrow>
   string option \<Rightarrow> (py_exc + sentencia) \<times> heap" where
  "actualizar_postgresql_sentencia L db h nombre_tabla nombre_clave valor_clave datos esquema
     campos_encriptar =
     (if vacio nombre_tabla then (Inl ValueError, h)
      else if vacio nombre_clave then (Inl ValueError, h)
      else if vacio valor_clave then (Inl ValueError, h)
      else if h ! datos = [] then (Inl ValueError, h)
      else
        let esquema_final = py_strip (o_defecto esquema ''public'');
            (datos_finales, h1) = dict_copia h datos;
            (error, h2) = cifrar_datos L campos_encriptar datos_finales h1
        in case error of
             Some ex \<Rightarrow> (Inl ex, h2)
           | None \<Rightarrow>
               let claves = map fst (h2 ! datos_finales);
                   clausula_set =
                     join '', '' (map (\<lambda>k. comillas @ k @ comillas @ '' = :'' @ k) claves);
                   texto = plantilla 12
                     [''UPDATE '' @ comillas @ esquema_final @ comillas @ ''.'' @
                        comillas @ nombre_tabla @ comillas,
                      ''SET '' @ clausula_set,
                      ''WHERE '' @ comillas @ nombre_clave @ comillas @ '' = :valor_clave'']
               in (envolver (con_valores texto
                     (con_clave
                        (convertir_valor_postgresql L valor_clave
                           (detectar_tipo_columna_postgresql db nombre_tabla esquema_final nombre_clave))
                        (ligar_valores (\<lambda>k. k)
                           (\<lambda>key val. convertir_valor_postgresql L val
                              (detectar_tipo_columna_postgresql db nombre_tabla esquema_final key))
                           (h2 ! datos_finales) []))), h2))"

definition actualizar_postgresql ::
  "biblioteca \<Rightarrow> base_datos \<Rightarrow> heap \<Rightarrow> string \<Rightarrow> string \<Rightarrow> string \<Rightarrow> nat \<Rightarrow> string option \<Rightarrow>
   string option \<Rightarrow> (py_exc + int) \<times> heap" where
  "actualizar_postgresql L db h nombre_tabla nombre_clave valor_clave datos esquema
     campos_encriptar =
     (let (s, h') = actualizar_postgresql_sentencia L db h nombre_tabla nombre_clave valor_clave
                      datos esquema campos_encriptar
      in (ejecutar db (\<lambda>result. Inr (rowcount result)) s, h'))"

text \<open>MySQL/MariaDB binds \<open>valor_clave\<close> as the text it received.\<close>

definition actualizar_mysql_sentencia ::
  "biblioteca \<Rightarrow> base_datos \<Rightarrow> heap \<Rightarrow> string \<Rightarrow> string \<Rightarrow> string \<Rightarrow> nat \<Rightarrow> string option \<Rightarrow>
   string option \<Rightarrow> (py_exc + sentencia) \<times> heap" where
  "actualizar_mysql_sentencia L db h nombre_tabla nombre_clave valor_clave datos esquema
     campos_encriptar =
     (if vacio nombre_tabla then (Inl ValueError, h)
      else if vacio nombre_clave then (Inl ValueError, h)
      else if vacio valor_clave then (Inl ValueError, h)
      else if h ! datos = [] then (Inl ValueError, h)
      else
        let (datos_finales, h1) = dict_copia h datos;
            (error, h2) = cifrar_datos L campos_encriptar datos_finales h1
        in case error of
             Some ex \<Rightarrow> (Inl ex, h2)
           | None \<Rightarrow>
               let claves = map fst (h2 ! datos_finales);
                   clausula_set =
                     join '', '' (map (\<lambda>k. acento @ k @ acento @ '' = :p_'' @ k) claves);
                   texto = plantilla 12
                     [''UPDATE '' @ prefijo_esquema esquema @ acento @ nombre_tabla @ acento,
                      ''SET '' @ clausula_set,
                      ''WHERE '' @ acento @ nombre_clave @ acento @ '' = :valor_clave'']
               in (envolver (con_valores texto
                     (con_clave (Inr (VStr valor_clave))
                        (ligar_valores (\<lambda>k. ''p_'' @ k)
                           (\<lambda>key val. convertir_valor_mysql L val
                              (detectar_tipo_columna_mysql db nombre_tabla key))
                           (h2 ! datos_finales) []))), h2))"

definition actualizar_mysql ::
  "biblioteca \<Rightarrow> base_datos \<Rightarrow> heap \<Rightarrow> string \<Rightarrow> string \<Rightarrow> string \<Rightarrow> nat \<Rightarrow> string option \<Rightarrow>
   string option \<Rightarrow> (py_exc + int) \<times> heap" where
  "actualizar_mysql L db h nombre_tabla nombre_clave valor_clave datos esquema
     campos_encriptar =
     (let (s, h') = actualizar_mysql_sentencia L db h nombre_tabla nombre_clave valor_clave
                      datos esquema campos_encriptar
      in (ejecutar db (\<lambda>result. Inr (rowcount result)) s, h'))"

section \<open>Deleting\<close>

definition eliminar_sqlserver_sentencia ::
  "biblioteca \<Rightarrow> base_datos \<Rightarrow> string \<Rightarrow> string \<Rightarrow> string \<Rightarrow> string option \<Rightarrow> py_exc + sentencia" where
  "eliminar_sqlserver_sentencia L db nombre_tabla nombre_clave valor_clave esquema =
     (if vacio nombre_tabla then Inl ValueError
      else if vacio nombre_clave then Inl ValueError
      else if vacio valor_clave then Inl ValueError
      else
        let esquema_final = py_strip (o_defecto esquema ''dbo'');
            texto = plantilla 12
              [''DELETE FROM ['' @ esquema_final @ ''].['' @ nombre_tabla @ '']'',
               ''WHERE ['' @ nombre_clave @ ''] = :valor_clave''];
            tipo_clave = detectar_tipo_columna_sqlserver db nombre_tabla esquema_final nombre_clave
        in envolver (con_valor texto ''valor_clave''
                       (convertir_valor_sqlserver L valor_clave tipo_clave)))"

definition eliminar_sqlserver ::
  "biblioteca \<Rightarrow> base_datos \<Rightarrow> string \<Rightarrow> string \<Rightarrow> string \<Rightarrow> string option \<Rightarrow> py_exc + int" where
  "eliminar_sqlserver L db nombre_tabla nombre_clave valor_clave esquema =
     ejecutar db (\<lambda>result. Inr (rowcount result))
       (eliminar_sqlserver_sentencia L db nombre_tabla nombre_clave valor_clave esquema)"

definition eliminar_postgresql_sentencia ::
  "biblioteca \<Rightarrow> base_datos \<Rightarrow> string \<Rightarrow> string \<Rightarrow> string \<Rightarrow> string option \<Rightarrow> py_exc + sentencia" where
  "eliminar_postgresql_sentencia L db nombre_tabla nombre_clave valor_clave esquema =
     (if vacio nombre_tabla then Inl ValueError
      else if vacio nombre_clave then Inl ValueError
      else if vacio valor_clave then Inl ValueError
      else
        let esquema_final = py_strip (o_defecto esquema ''public'');
            texto = plantilla 12
              [''DELETE FROM '' @ comillas @ esquema_final @ comillas @ ''.'' @
                 comillas @ nombre_tabla @ comillas,
               ''WHERE '' @ comillas @ nombre_clave @ comillas @ '' = :valor_clave''];
            tipo_clave = detectar_tipo_columna_postgresql db nombre_tabla esquema_final nombre_clave
        in envolver (con_valor texto ''valor_clave''
                       (convertir_valor_postgresql L valor_clave tipo_clave)))"

definition eliminar_postgresql ::
  "biblioteca \<Rightarrow> base_datos \<Rightarrow> string \<Rightarrow> string \<Rightarrow> string \<Rightarrow> string option \<Rightarrow> py_exc + int" where
  "eliminar_postgresql L db nombre_tabla nombre_clave valor_clave esquema =
     ejecutar db (\<lambda>result. Inr (rowcount result))
       (eliminar_postgresql_sentencia L db nombre_tabla nombre_clave valor_clave esquema)"

definition eliminar_mysql_sentencia ::
  "string \<Rightarrow> string \<Rightarrow> string \<Rightarrow> string option \<Rightarrow> py_exc + sentencia" where
  "eliminar_mysql_sentencia nombre_tabla nombre_clave valor_clave esquema =
     (if vacio nombre_tabla then Inl ValueError
      else if vacio nombre_clave then Inl ValueError
      else if vacio valor_clave then Inl ValueError
      else
        let texto = plantilla 12
              [''DELETE FROM '' @ prefijo_esquema esquema @ acento @ nombre_tabla @ acento,
               ''WHERE '' @ acento @ nombre_clave @ acento @ '' = :valor_clave'']
        in Inr \<lparr>sql = texto, parametros = [(''valor_clave'', VStr valor_clave)]\<rparr>)"

definition eliminar_mysql ::
  "base_datos \<Rightarrow> string \<Rightarrow> string \<Rightarrow> string \<Rightarrow> string option \<Rightarrow> py_exc + int" where
  "eliminar_mysql db nombre_tabla nombre_clave valor_clave esquema =
     ejecutar db (\<lambda>result. Inr (rowcount result))
       (eliminar_mysql_sentencia nombre_tabla nombre_clave valor_clave esquema)"

section \<open>Reading a stored hash\<close>

text \<open>\<open>str(row[0]) if row and row[0] else None\<close>\<close>

fun hash_de_fila :: "biblioteca \<Rightarrow> pyval list option \<Rightarrow> string option" where
  "hash_de_fila L None = None"
| "hash_de_fila L (Some []) = None"
| "hash_de_fila L (Some (v # _)) = (if py_truthy v then Some (py_str L v) else None)"

definition obtener_hash_contrasena_sqlserver_sentencia ::
  "string \<Rightarrow> string \<Rightarrow> string \<Rightarrow> string \<Rightarrow> string option \<Rightarrow> py_exc + sentencia" where
  "obtener_hash_contrasena_sqlserver_sentencia nombre_tabla campo_usuario campo_contrasena
     valor_usuario esquema =
     (if vacio nombre_tabla then Inl ValueError
      else if vacio campo_usuario then Inl ValueError
      else if vacio campo_contrasena then Inl ValueError
      else if vacio valor_usuario then Inl ValueError
      else
        let esquema_final = py_strip (o_defecto esquema ''dbo'')
        in Inr \<lparr>sql = plantilla 12
                   [''SELECT ['' @ campo_contrasena @ '']'',
                    ''FROM ['' @ esquema_final @ ''].['' @ nombre_tabla @ '']'',
                    ''WHERE ['' @ campo_usuario @ ''] = :valor_usuario''],
                 parametros = [(''valor_usuario'', VStr valor_usuario)]\<rparr>)"

definition obtener_hash_contrasena_sqlserver ::
  "biblioteca \<Rightarrow> base_datos \<Rightarrow> string \<Rightarrow> string \<Rightarrow> string \<Rightarrow> string \<Rightarrow> string option \<Rightarrow>
   py_exc + string option" where
  "obtener_hash_contrasena_sqlserver L db nombre_tabla campo_usuario campo_contrasena
     valor_usuario esquema =
     ejecutar db (\<lambda>result. Inr (hash_de_fila L (fetchone result)))
       (obtener_hash_contrasena_sqlserver_sentencia nombre_tabla campo_usuario campo_contrasena
          valor_usuario esquema)"

definition obtener_hash_contrasena_postgresql_sentencia ::
  "string \<Rightarrow> string \<Rightarrow> string \<Rightarrow> string \<Rightarrow> string option \<Rightarrow> py_exc + sentencia" where
  "obtener_hash_contrasena_postgresql_sentencia nombre_tabla campo_usuario campo_contrasena
     valor_usuario esquema =
     (if vacio nombre_tabla then Inl ValueError
      else if vacio campo_usuario then Inl ValueError
      else if vacio campo_contrasena then Inl ValueError
      else if vacio valor_usuario then Inl ValueError
      else
        let esquema_final = py_strip (o_defecto esquema ''public'')
        in Inr \<lparr>sql = plantilla 12
                   [''SELECT '' @ comillas @ campo_contrasena @ comillas,
                    ''FROM '' @ comillas @ esquema_final @ comillas @ ''.'' @
                      comillas @ nombre_tabla @ comillas,
                    ''WHERE '' @ comillas @ campo_usuario @ comillas @ '' = :valor_usuario''],
                 parametros = [(''valor_usuario'', VStr valor_usuario)]\<rparr>)"

definition obtener_hash_contrasena_postgresql ::
  "biblioteca \<Rightarrow> base_datos \<Rightarrow> string \<Rightarrow> string \<Rightarrow> string \<Rightarrow> string \<Rightarrow> string option \<Rightarrow>
   py_exc + string option" where
  "obtener_hash_contrasena_postgresql L db nombre_tabla campo_usuario campo_contrasena
     valor_usuario esquema =
     ejecutar db (\<lambda>result. Inr (hash_de_fila L (fetchone result)))
       (obtener_hash_contrasena_postgresql_sentencia nombre_tabla campo_usuario campo_contrasena
          valor_usuario esquema)"

definition obtener_hash_contrasena_mysql_sentencia ::
  "string \<Rightarrow> string \<Rightarrow> string \<Rightarrow> string \<Rightarrow> string option \<Rightarrow> py_exc + sentencia" where
  "obtener_hash_contrasena_mysql_sentencia nombre_tabla campo_usuario campo_contrasena
     valor_usuario esquema =
     (if vacio nombre_tabla then Inl ValueError
      else if vacio campo_usuario then Inl ValueError
      else if vacio campo_contrasena then Inl ValueError
      else if vacio valor_usuario then Inl ValueError
      else
        Inr \<lparr>sql = plantilla 12
                [''SELECT '' @ acento @ campo_contrasena @ acento,
                 ''FROM '' @ prefijo_esquema esquema @ acento @ nombre_tabla @ acento,
                 ''WHERE '' @ acento @ campo_usuario @ acento @ '' = :valor_usuario'',
                 ''LIMIT 1''],
              parametros = [(''valor_usuario'', VStr valor_usuario)]\<rparr>)"

definition obtener_hash_contrasena_mysql ::
  "biblioteca \<Rightarrow> base_datos \<Rightarrow> string \<Rightarrow> string \<Rightarrow> string \<Rightarrow> string \<Rightarrow> string option \<Rightarrow>
   py_exc + string option" where
  "obtener_hash_contrasena_mysql L db nombre_tabla campo_usuario campo_contrasena
     valor_usuario esquema =
     ejecutar db (\<lambda>result. Inr (hash_de_fila L (fetchone result)))
       (obtener_hash_contrasena_mysql_sentencia nombre_tabla campo_usuario campo_contrasena
          valor_usuario esquema)"

section \<open>The service\<close>

text \<open>
  \<open>ServicioCrud\<close> holds a repository and calls its methods; the model takes the method it
  calls as an argument.
\<close>

definition esquema_norm :: "string option \<Rightarrow> string option" where
  "esquema_norm esquema =
     (case esquema of
        None \<Rightarrow> None
      | Some e \<Rightarrow> if e \<noteq> [] \<and> py_strip e \<noteq> [] then Some (py_strip e) else None)"

definition limite_norm :: "int option \<Rightarrow> int option" where
  "limite_norm limite =
     (case limite of
        None \<Rightarrow> None
      | Some n \<Rightarrow> if n \<noteq> 0 \<and> n > 0 then Some n else None)"

definition listar ::
  "(string \<Rightarrow> string option \<Rightarrow> int option \<Rightarrow> py_exc + 'a) \<Rightarrow>
   string \<Rightarrow> string option \<Rightarrow> int option \<Rightarrow> py_exc + 'a" where
  "listar obtener_filas nombre_tabla esquema limite =
     (if vacio nombre_tabla then Inl ValueError
      else obtener_filas nombre_tabla (esquema_norm esquema) (limite_norm limite))"

definition verificar_contrasena ::
  "biblioteca \<Rightarrow>
   (string \<Rightarrow> string \<Rightarrow> string \<Rightarrow> string \<Rightarrow> string option \<Rightarrow> py_exc + string option) \<Rightarrow>
   string \<Rightarrow> string \<Rightarrow> string \<Rightarrow> string \<Rightarrow> string \<Rightarrow> string option \<Rightarrow> py_exc + int \<times> string" where
  "verificar_contrasena L obtener_hash_contrasena nombre_tabla campo_usuario campo_contrasena
     valor_usuario valor_contrasena esquema =
     (if vacio nombre_tabla then Inl ValueError
      else if vacio campo_usuario then Inl ValueError
      else if vacio campo_contrasena then Inl ValueError
      else if vacio valor_usuario then Inl ValueError
      else if vacio valor_contrasena then Inl ValueError
      else
        (case obtener_hash_contrasena nombre_tabla campo_usuario campo_contrasena valor_usuario
                (esquema_norm esquema) of
           Inl ex \<Rightarrow> Inl ex
         | Inr None \<Rightarrow> Inr (404, ''Usuario no encontrado.'')
         | Inr (Some hash_almacenado) \<Rightarrow>
             (case verificar L valor_contrasena hash_almacenado of
                Inl ex \<Rightarrow> Inl ex
              | Inr True \<Rightarrow> Inr (200, ''Contrase'' @ [CHR 0xF1] @ ''a v'' @ [CHR 0xE1] @ ''lida.'')
              | Inr False \<Rightarrow> Inr (401, ''Contrase'' @ [CHR 0xF1] @ ''a incorrecta.''))))"

section \<open>An example library and example databases\<close>

text \<open>
  Where an operation is evaluated at a concrete input, these stand in for the library
  and the database. The library parses nothing, and its hash is \<open>$2b$\<close>, the salt and the
  password. \<open>bd_ejemplo tipo\<close> answers every statement with one row whose cell is
  \<open>tipo\<close>, \<open>bd_vacia\<close> with no row, and \<open>bd_caida\<close> fails on every statement.
\<close>

definition biblioteca_ejemplo :: biblioteca where
  "biblioteca_ejemplo =
     \<lparr>float_de_str = (\<lambda>s. None),
      uuid_de_str = (\<lambda>s. None),
      datetime_fromisoformat = (\<lambda>s. None),
      time_fromisoformat = (\<lambda>s. None),
      date_fromisoformat_otras = (\<lambda>s. None),
      float_de_decimal = (\<lambda>d. Inl ValueError),
      str_de = (\<lambda>v. []),
      datetime_isoformat = (\<lambda>d. []),
      time_isoformat = (\<lambda>h. []),
      decode_utf8 = (\<lambda>b. b),
      gensalt = (\<lambda>costo i. digitos costo @ ''$''),
      hashpw = (\<lambda>p sal. Inr (''$2b$'' @ sal @ p)),
      checkpw = (\<lambda>p h. Inr (length p \<le> length h \<and> drop (length h - length p) h = p))\<rparr>"

definition bd_ejemplo :: "pyval \<Rightarrow> base_datos" where
  "bd_ejemplo tipo s = Inr \<lparr>columnas = [''columna''], filas = [[tipo]], rowcount = 1\<rparr>"

definition bd_caida :: base_datos where
  "bd_caida s = Inl ErrorBD"

definition bd_vacia :: base_datos where
  "bd_vacia s = Inr \<lparr>columnas = [''columna''], filas = [], rowcount = 0\<rparr>"

section \<open>Evaluation at concrete inputs\<close>

lemmas cadena_simps =
  py_strip_def py_isspace_def py_lower_def lower_char_def mayusculas_def minusculas_def
  es_digito_def valor_digito_def valor_digitos_def quitar_signo_def

lemma no_vacio_ejemplos:
  "\<not> vacio ''usuarios''" "\<not> vacio ''id''" "\<not> vacio ''30''" "\<not> vacio ''eventos''"
  "\<not> vacio ''creado''" "\<not> vacio ''2024-01-15''" "\<not> vacio ''email''" "\<not> vacio ''clave''"
  "\<not> vacio ''a@b.com''" "\<not> vacio ''secreto''" "\<not> vacio ''edad''"
  by (simp_all add: vacio_def cadena_simps)

lemma py_strip_defecto: "py_strip ''dbo'' = ''dbo''" "py_strip ''public'' = ''public''"
  by (simp_all add: cadena_simps)

lemma py_lower_ejemplos:
  "py_lower ''int'' = ''int''" "py_lower ''integer'' = ''integer''"
  "py_lower ''smalldatetime'' = ''smalldatetime''" "py_lower ''datetime'' = ''datetime''"
  "py_lower ''INT'' = ''int''"
  by (simp_all add: cadena_simps)

lemma detectar_bd_ejemplo:
  "detectar_tipo_columna_sqlserver (bd_ejemplo (VStr t)) tab e c = Some (py_lower t)"
  "detectar_tipo_columna_postgresql (bd_ejemplo (VStr t)) tab e c = Some (py_lower t)"
  "detectar_tipo_columna_mysql (bd_ejemplo (VStr t)) tab c = Some (py_lower t)"
  by (simp_all add: detectar_tipo_columna_sqlserver_def detectar_tipo_columna_postgresql_def
      detectar_tipo_columna_mysql_def bd_ejemplo_def fetchone_def)

lemma detectar_bd_caida:
  "detectar_tipo_columna_sqlserver bd_caida tab e c = None"
  "detectar_tipo_columna_postgresql bd_caida tab e c = None"
  "detectar_tipo_columna_mysql bd_caida tab c = None"
  by (simp_all add: detectar_tipo_columna_sqlserver_def detectar_tipo_columna_postgresql_def
      detectar_tipo_columna_mysql_def bd_caida_def)

lemma py_int_30: "py_int ''30'' = Some 30"
  by (simp add: py_int_def cadena_simps)

lemma py_Decimal_abc: "py_Decimal ''abc'' = None"
  by (simp add: py_Decimal_def decimal_numero_def exponente_def cadena_simps)

lemma es_fecha_sin_hora_ejemplo: "es_fecha_sin_hora ''2024-01-15''"
  by (simp add: es_fecha_sin_hora_def)

lemma extraer_solo_fecha_ejemplo: "extraer_solo_fecha L ''2024-01-15'' = Some (Fecha 2024 1 15)"
  by (simp add: extraer_solo_fecha_def date_fromisoformat_def forma_fecha_def fecha_valida_def
      dias_del_mes_def bisiesto_def cadena_simps)

section \<open>The key value of update and delete\<close>

text \<open>
  Claim C1. Every dialect detects the catalog type of the key column in update and delete
  and coerces the key value to it before binding it into the WHERE predicate.

  SQL Server and PostgreSQL do. MySQL/MariaDB does not: on the table \<open>usuarios\<close> keyed by
  the \<open>int\<close> column \<open>id\<close> with key value \<open>"30"\<close>, its \<open>eliminar\<close> and its \<open>actualizar\<close> bind the
  text \<open>"30"\<close>, where the other two dialects bind the integer 30.
\<close>

theorem clave_mysql_sin_convertir:
  "eliminar_mysql_sentencia ''usuarios'' ''id'' ''30'' None =
     Inr \<lparr>sql = plantilla 12
            [''DELETE FROM '' @ acento @ ''usuarios'' @ acento,
             ''WHERE '' @ acento @ ''id'' @ acento @ '' = :valor_clave''],
          parametros = [(''valor_clave'', VStr ''30'')]\<rparr> \<and>
   fst (actualizar_mysql_sentencia L (bd_ejemplo (VStr ''int'')) [[(''edad'', VInt 31)]]
          ''usuarios'' ''id'' ''30'' 0 None None) =
     Inr \<lparr>sql = plantilla 12
            [''UPDATE '' @ acento @ ''usuarios'' @ acento,
             ''SET '' @ acento @ ''edad'' @ acento @ '' = :p_edad'',
             ''WHERE '' @ acento @ ''id'' @ acento @ '' = :valor_clave''],
          parametros = [(''p_edad'', VInt 31), (''valor_clave'', VStr ''30'')]\<rparr> \<and>
   eliminar_sqlserver_sentencia L (bd_ejemplo (VStr ''int'')) ''usuarios'' ''id'' ''30'' None =
     Inr \<lparr>sql = plantilla 12 [''DELETE FROM [dbo].[usuarios]'', ''WHERE [id] = :valor_clave''],
          parametros = [(''valor_clave'', VInt 30)]\<rparr> \<and>
   fst (actualizar_sqlserver_sentencia L (bd_ejemplo (VStr ''int'')) [[(''edad'', VInt 31)]]
          ''usuarios'' ''id'' ''30'' 0 None None) =
     Inr \<lparr>sql = plantilla 12
            [''UPDATE [dbo].[usuarios]'', ''SET [edad] = :edad'', ''WHERE [id] = :valor_clave''],
          parametros = [(''edad'', VInt 31), (''valor_clave'', VInt 30)]\<rparr> \<and>
   eliminar_postgresql_sentencia L (bd_ejemplo (VStr ''integer'')) ''usuarios'' ''id'' ''30'' None =
     Inr \<lparr>sql = plantilla 12
            [''DELETE FROM '' @ comillas @ ''public'' @ comillas @ ''.'' @
               comillas @ ''usuarios'' @ comillas,
             ''WHERE '' @ comillas @ ''id'' @ comillas @ '' = :valor_clave''],
          parametros = [(''valor_clave'', VInt 30)]\<rparr>"
  by (simp add: eliminar_mysql_sentencia_def eliminar_sqlserver_sentencia_def
      eliminar_postgresql_sentencia_def actualizar_mysql_sentencia_def
      actualizar_sqlserver_sentencia_def dict_copia_def cifrar_datos_def
      no_vacio_ejemplos py_strip_defecto detectar_bd_ejemplo py_lower_ejemplos
      convertir_valor_sqlserver_def convertir_valor_postgresql_def py_int_30)

section \<open>Coercion of a malformed literal\<close>

text \<open>
  Claim C2. The value coercion of every dialect returns a value and never raises: on a
  malformed literal for the target type it returns the raw string.

  The \<open>try\<close> catches \<open>ValueError\<close> and \<open>TypeError\<close>, and \<open>Decimal\<close> raises neither: on the
  string \<open>"abc"\<close> against a decimal column the coercion of each dialect ends in
  \<open>decimal.InvalidOperation\<close>.
\<close>

theorem convertir_valor_decimal_malformado:
  "convertir_valor_sqlserver L ''abc'' (Some ''decimal'') = Inl InvalidOperation \<and>
   convertir_valor_postgresql L ''abc'' (Some ''numeric'') = Inl InvalidOperation \<and>
   convertir_valor_mysql L ''abc'' (Some ''decimal'') = Inl InvalidOperation"
  by (simp add: convertir_valor_sqlserver_def convertir_valor_postgresql_def
      convertir_valor_mysql_def py_Decimal_abc)

section \<open>A date against a timestamp column\<close>

text \<open>
  Claim C3. In every dialect, filtering a timestamp column by a value of the form
  \<open>YYYY-MM-DD\<close> casts the column to DATE and compares it with the parsed date.

  SQL Server's own coercion counts \<open>smalldatetime\<close> among the timestamp types, its
  \<open>obtener_por_clave\<close> does not: on a \<open>smalldatetime\<close> column the value \<open>"2024-01-15"\<close> is
  compared by plain equality, on a \<open>datetime\<close> column by the cast.
\<close>

theorem obtener_por_clave_smalldatetime:
  "(\<exists>v. obtener_por_clave_sqlserver_sentencia L (bd_ejemplo (VStr ''smalldatetime''))
           ''eventos'' ''creado'' ''2024-01-15'' None =
         Inr \<lparr>sql = plantilla 20
                [''SELECT * FROM [dbo].[eventos]'', ''WHERE [creado] = :valor''],
              parametros = [(''valor'', v)]\<rparr>) \<and>
   obtener_por_clave_sqlserver_sentencia L (bd_ejemplo (VStr ''datetime''))
       ''eventos'' ''creado'' ''2024-01-15'' None =
     Inr \<lparr>sql = plantilla 20
            [''SELECT * FROM [dbo].[eventos]'', ''WHERE CAST([creado] AS DATE) = :valor''],
          parametros = [(''valor'', VDate (Fecha 2024 1 15))]\<rparr>"
  by (cases "datetime_fromisoformat L ''2024-01-15''")
     (simp_all add: obtener_por_clave_sqlserver_sentencia_def no_vacio_ejemplos
        py_strip_defecto detectar_bd_ejemplo py_lower_ejemplos convertir_valor_sqlserver_def
        es_fecha_sin_hora_ejemplo extraer_solo_fecha_ejemplo replace_Z_def)

section \<open>The row limit of a listing\<close>

text \<open>
  Claim C6, as stated: with a non-empty table name and no schema, \<open>list\<close> issues the row
  limit 1000 when the caller gives none and exactly the caller's limit otherwise.

  It fails for a limit that is not positive: the service drops it, and the repository
  falls back to 1000. Here the caller asks for \<open>-5\<close> rows.
\<close>

theorem listar_limite_no_positivo:
  "listar obtener_filas_postgresql_sentencia ''usuarios'' None (Some (- 5)) =
     Inr \<lparr>sql = ''SELECT * FROM '' @ comillas @ ''public'' @ comillas @ ''.'' @
                  comillas @ ''usuarios'' @ comillas @ '' LIMIT :limite'',
          parametros = [(''limite'', VInt 1000)]\<rparr> \<and>
   VInt 1000 \<noteq> VInt (- 5)"
  by (simp add: listar_def obtener_filas_postgresql_sentencia_def esquema_norm_def
      limite_norm_def no_vacio_ejemplos py_strip_defecto)

lemma o_limite_norm:
  "o_limite (limite_norm limite) =
     (case limite of None \<Rightarrow> 1000 | Some n \<Rightarrow> if 0 < n then n else 1000)"
  by (cases limite) (auto simp: limite_norm_def)

text \<open>
  Claim C6, amended: for every dialect and every table name that is not blank, with no
  schema, \<open>list\<close> issues the row limit 1000 when the caller gives no limit or one that is
  not positive, and exactly the caller's limit when it is positive. SQL Server writes the
  limit into \<open>TOP (n)\<close>, PostgreSQL and MySQL/MariaDB bind it to \<open>:limite\<close>.
\<close>

theorem listar_limite:
  assumes "\<not> vacio nombre_tabla"
    and "n = (case limite of None \<Rightarrow> 1000 | Some k \<Rightarrow> if 0 < k then k else 1000)"
  shows
    "listar obtener_filas_sqlserver_sentencia nombre_tabla None limite =
       Inr \<lparr>sql = ''SELECT TOP ('' @ str_int n @ '') * FROM [dbo].['' @ nombre_tabla @ '']'',
            parametros = []\<rparr> \<and>
     listar obtener_filas_postgresql_sentencia nombre_tabla None limite =
       Inr \<lparr>sql = ''SELECT * FROM '' @ comillas @ ''public'' @ comillas @ ''.'' @
                    comillas @ nombre_tabla @ comillas @ '' LIMIT :limite'',
            parametros = [(''limite'', VInt n)]\<rparr> \<and>
     listar obtener_filas_mysql_sentencia nombre_tabla None limite =
       Inr \<lparr>sql = ''SELECT * FROM '' @ acento @ nombre_tabla @ acento @ '' LIMIT :limite'',
            parametros = [(''limite'', VInt n)]\<rparr>"
  using assms
  by (simp add: listar_def obtener_filas_sqlserver_sentencia_def
      obtener_filas_postgresql_sentencia_def obtener_filas_mysql_sentencia_def
      esquema_norm_def py_strip_defecto o_limite_norm)

theorem listar_limite_testigo:
  "listar obtener_filas_sqlserver_sentencia ''usuarios'' None None =
     Inr \<lparr>sql = ''SELECT TOP (1000) * FROM [dbo].[usuarios]'', parametros = []\<rparr> \<and>
   listar obtener_filas_sqlserver_sentencia ''usuarios'' None (Some 50) =
     Inr \<lparr>sql = ''SELECT TOP (50) * FROM [dbo].[usuarios]'', parametros = []\<rparr> \<and>
   listar obtener_filas_mysql_sentencia ''usuarios'' None (Some 50) =
     Inr \<lparr>sql = ''SELECT * FROM '' @ acento @ ''usuarios'' @ acento @ '' LIMIT :limite'',
          parametros = [(''limite'', VInt 50)]\<rparr>"
  using listar_limite [of "''usuarios''" 1000 None]
    listar_limite [of "''usuarios''" 50 "Some 50"]
  by (simp add: no_vacio_ejemplos str_int_def cifra_def)

section \<open>The encryption block and the binding loop\<close>

text \<open>
  The encryption block writes only to the copy, keeps its keys, and replaces exactly the
  truthy values of the named fields; the binding loop binds every field once.
\<close>

lemma claves_update:
  "map_of al k = Some v \<Longrightarrow> map fst (AList.update k w al) = map fst al"
  by (induction al) (auto split: if_splits)







lemma envolver_Inr: "(envolver x = Inr s) = (x = Inr s)"
  by (cases x) auto

lemma con_valores_Inr:
  "(con_valores texto r = Inr s) = (\<exists>vs. r = Inr vs \<and> s = \<lparr>sql = texto, parametros = vs\<rparr>)"
  by (cases r) auto

lemma con_valor_Inr:
  "(con_valor texto n r = Inr s) = (\<exists>v. r = Inr v \<and> s = \<lparr>sql = texto, parametros = [(n, v)]\<rparr>)"
  by (cases r) auto

lemma con_clave_Inr:
  "(con_clave c r = Inr vs') =
     (\<exists>v vs. c = Inr v \<and> r = Inr vs \<and> vs' = AList.update ''valor_clave'' v vs)"
  by (cases c; cases r) auto

lemma cifrar_campos_marco:
  "cifrar_campos L cs a ks i h = (e, h') \<Longrightarrow>
     length h' = length h \<and> (\<forall>b. b \<noteq> a \<longrightarrow> h' ! b = h ! b) \<and>
     (a < length h \<longrightarrow> map fst (h' ! a) = map fst (h ! a))"
proof (induction ks arbitrary: i h)
  case Nil
  then show ?case by simp
next
  case (Cons campo resto)
  show ?case
  proof (cases "map_of (h ! a) campo")
    case None
    with Cons.prems show ?thesis by simp
  next
    case (Some v)
    show ?thesis
    proof (cases "py_lower campo \<in> set cs \<and> py_truthy v")
      case False
      with Cons.prems Some have "cifrar_campos L cs a resto i h = (e, h')" by auto
      from Cons.IH[OF this] show ?thesis .
    next
      case True
      show ?thesis
      proof (cases "encriptar L i (py_str L v) COSTO_POR_DEFECTO")
        case (Inl ex)
        with Cons.prems Some True show ?thesis by simp
      next
        case (Inr hash)
        let ?h1 = "dict_set h a campo (VStr hash)"
        from Cons.prems Some True Inr
        have "cifrar_campos L cs a resto (Suc i) ?h1 = (e, h')" by simp
        from Cons.IH[OF this]
        have ih: "length h' = length ?h1" "\<forall>b. b \<noteq> a \<longrightarrow> h' ! b = ?h1 ! b"
          "a < length ?h1 \<longrightarrow> map fst (h' ! a) = map fst (?h1 ! a)" by auto
        have "a < length h \<Longrightarrow> map fst (?h1 ! a) = map fst (h ! a)"
          using Some by (simp add: dict_set_def claves_update)
        with ih show ?thesis by (simp add: dict_set_def)
      qed
    qed
  qed
qed

lemma cifrar_datos_marco:
  "cifrar_datos L c a h = (e, h') \<Longrightarrow>
     length h' = length h \<and> (\<forall>b. b \<noteq> a \<longrightarrow> h' ! b = h ! b) \<and>
     (a < length h \<longrightarrow> map fst (h' ! a) = map fst (h ! a))"
  by (auto simp: cifrar_datos_def split: option.splits if_splits dest: cifrar_campos_marco)

lemma copia_cifrada:
  assumes "dict_copia h datos = (a, h1)" and "cifrar_datos L c a h1 = (e, h2)"
  shows "a = length h" and "length h2 = Suc (length h)" and "\<forall>b < length h. h2 ! b = h ! b"
    and "map fst (h2 ! a) = map fst (h ! datos)"
proof -
  from assms(1) have a: "a = length h" and h1: "h1 = h @ [h ! datos]"
    by (auto simp: dict_copia_def)
  from cifrar_datos_marco[OF assms(2)]
  have m: "length h2 = length h1" "\<forall>b. b \<noteq> a \<longrightarrow> h2 ! b = h1 ! b"
    "a < length h1 \<longrightarrow> map fst (h2 ! a) = map fst (h1 ! a)" by auto
  show "a = length h" by (rule a)
  show "length h2 = Suc (length h)" using m(1) h1 by simp
  show "\<forall>b < length h. h2 ! b = h ! b" using m(2) a h1 by (simp add: nth_append)
  show "map fst (h2 ! a) = map fst (h ! datos)" using m(3) a h1 by simp
qed



lemma append_uno: "(@) (c # cs) = (\<lambda>k. c # (cs @ k))"
  by (rule ext) simp

lemma crear_sqlserver_forma:
  assumes "crear_sqlserver_sentencia L db h t datos esq c = (Inr s, h')"
  shows "\<exists>a h1 valores.
           dict_copia h datos = (a, h1) \<and> cifrar_datos L c a h1 = (None, h') \<and>
           ligar_valores (\<lambda>k. k)
             (\<lambda>key val. convertir_valor_sqlserver L val
                (detectar_tipo_columna_sqlserver db t (py_strip (o_defecto esq ''dbo'')) key))
             (h' ! a) [] = Inr valores \<and>
           s = \<lparr>sql = ''INSERT INTO ['' @ py_strip (o_defecto esq ''dbo'') @ ''].['' @ t @ ''] ('' @
                       join '', '' (map (\<lambda>k. ''['' @ k @ '']'') (map fst (h ! datos))) @
                       '') VALUES ('' @ join '', '' (map (\<lambda>k. '':'' @ k) (map fst (h ! datos))) @ '')'',
                parametros = valores\<rparr>"
proof -
  obtain a h1 where c1: "dict_copia h datos = (a, h1)" by (cases "dict_copia h datos")
  obtain er h2 where c2: "cifrar_datos L c a h1 = (er, h2)" by (cases "cifrar_datos L c a h1")
  note k = copia_cifrada(4)[OF c1 c2]
  from assms show ?thesis
    unfolding crear_sqlserver_sentencia_def
    by (auto simp: c1 c2 k Let_def envolver_Inr con_valores_Inr append_uno split: if_splits option.splits)
qed

lemma crear_postgresql_forma:
  assumes "crear_postgresql_sentencia L db h t datos esq c = (Inr s, h')"
  shows "\<exists>a h1 valores.
           dict_copia h datos = (a, h1) \<and> cifrar_datos L c a h1 = (None, h') \<and>
           ligar_valores (\<lambda>k. k)
             (\<lambda>key val. convertir_valor_postgresql L val
                (detectar_tipo_columna_postgresql db t (py_strip (o_defecto esq ''public'')) key))
             (h' ! a) [] = Inr valores \<and>
           s = \<lparr>sql = ''INSERT INTO '' @ comillas @ py_strip (o_defecto esq ''public'') @ comillas @
                       ''.'' @ comillas @ t @ comillas @ '' ('' @
                       join '', '' (map (\<lambda>k. comillas @ k @ comillas) (map fst (h ! datos))) @
                       '') VALUES ('' @ join '', '' (map (\<lambda>k. '':'' @ k) (map fst (h ! datos))) @ '')'',
                parametros = valores\<rparr>"
proof -
  obtain a h1 where c1: "dict_copia h datos = (a, h1)" by (cases "dict_copia h datos")
  obtain er h2 where c2: "cifrar_datos L c a h1 = (er, h2)" by (cases "cifrar_datos L c a h1")
  note k = copia_cifrada(4)[OF c1 c2]
  from assms show ?thesis
    unfolding crear_postgresql_sentencia_def
    by (auto simp: c1 c2 k Let_def envolver_Inr con_valores_Inr append_uno split: if_splits option.splits)
qed

lemma crear_mysql_forma:
  assumes "crear_mysql_sentencia L db h t datos esq c = (Inr s, h')"
  shows "\<exists>a h1 valores.
           dict_copia h datos = (a, h1) \<and> cifrar_datos L c a h1 = (None, h') \<and>
           ligar_valores (\<lambda>k. ''p_'' @ k)
             (\<lambda>key val. convertir_valor_mysql L val (detectar_tipo_columna_mysql db t key))
             (h' ! a) [] = Inr valores \<and>
           s = \<lparr>sql = ''INSERT INTO '' @ prefijo_esquema esq @ acento @ t @ acento @ '' ('' @
                       join '', '' (map (\<lambda>k. acento @ k @ acento) (map fst (h ! datos))) @
                       '') VALUES ('' @ join '', '' (map (\<lambda>k. '':p_'' @ k) (map fst (h ! datos))) @ '')'',
                parametros = valores\<rparr>"
proof -
  obtain a h1 where c1: "dict_copia h datos = (a, h1)" by (cases "dict_copia h datos")
  obtain er h2 where c2: "cifrar_datos L c a h1 = (er, h2)" by (cases "cifrar_datos L c a h1")
  note k = copia_cifrada(4)[OF c1 c2]
  from assms show ?thesis
    unfolding crear_mysql_sentencia_def
    by (auto simp: c1 c2 k Let_def envolver_Inr con_valores_Inr append_uno split: if_splits option.splits)
qed

lemma actualizar_sqlserver_forma:
  assumes "actualizar_sqlserver_sentencia L db h t clave valor_clave datos esq c = (Inr s, h')"
  shows "\<exists>a h1 valores v.
           dict_copia h datos = (a, h1) \<and> cifrar_datos L c a h1 = (None, h') \<and>
           ligar_valores (\<lambda>k. k)
             (\<lambda>key val. convertir_valor_sqlserver L val
                (detectar_tipo_columna_sqlserver db t (py_strip (o_defecto esq ''dbo'')) key))
             (h' ! a) [] = Inr valores \<and>
           convertir_valor_sqlserver L valor_clave
             (detectar_tipo_columna_sqlserver db t (py_strip (o_defecto esq ''dbo'')) clave) = Inr v \<and>
           s = \<lparr>sql = plantilla 12
                  [''UPDATE ['' @ py_strip (o_defecto esq ''dbo'') @ ''].['' @ t @ '']'',
                   ''SET '' @ join '', '' (map (\<lambda>k. ''['' @ k @ ''] = :'' @ k) (map fst (h ! datos))),
                   ''WHERE ['' @ clave @ ''] = :valor_clave''],
                parametros = AList.update ''valor_clave'' v valores\<rparr>"
proof -
  obtain a h1 where c1: "dict_copia h datos = (a, h1)" by (cases "dict_copia h datos")
  obtain er h2 where c2: "cifrar_datos L c a h1 = (er, h2)" by (cases "cifrar_datos L c a h1")
  note k = copia_cifrada(4)[OF c1 c2]
  from assms show ?thesis
    unfolding actualizar_sqlserver_sentencia_def
    by (auto simp: c1 c2 k Let_def envolver_Inr con_valores_Inr con_clave_Inr append_uno
        split: if_splits option.splits)
qed

lemma actualizar_postgresql_forma:
  assumes "actualizar_postgresql_sentencia L db h t clave valor_clave datos esq c = (Inr s, h')"
  shows "\<exists>a h1 valores v.
           dict_copia h datos = (a, h1) \<and> cifrar_datos L c a h1 = (None, h') \<and>
           ligar_valores (\<lambda>k. k)
             (\<lambda>key val. convertir_valor_postgresql L val
                (detectar_tipo_columna_postgresql db t (py_strip (o_defecto esq ''public'')) key))
             (h' ! a) [] = Inr valores \<and>
           convertir_valor_postgresql L valor_clave
             (detectar_tipo_columna_postgresql db t (py_strip (o_defecto esq ''public'')) clave) = Inr v \<and>
           s = \<lparr>sql = plantilla 12
                  [''UPDATE '' @ comillas @ py_strip (o_defecto esq ''public'') @ comillas @ ''.'' @
                     comillas @ t @ comillas,
                   ''SET '' @ join '', ''
                      (map (\<lambda>k. comillas @ k @ comillas @ '' = :'' @ k) (map fst (h ! datos))),
                   ''WHERE '' @ comillas @ clave @ comillas @ '' = :valor_clave''],
                parametros = AList.update ''valor_clave'' v valores\<rparr>"
proof -
  obtain a h1 where c1: "dict_copia h datos = (a, h1)" by (cases "dict_copia h datos")
  obtain er h2 where c2: "cifrar_datos L c a h1 = (er, h2)" by (cases "cifrar_datos L c a h1")
  note k = copia_cifrada(4)[OF c1 c2]
  from assms show ?thesis
    unfolding actualizar_postgresql_sentencia_def
    by (auto simp: c1 c2 k Let_def envolver_Inr con_valores_Inr con_clave_Inr append_uno
        split: if_splits option.splits)
qed

lemma actualizar_mysql_forma:
  assumes "actualizar_mysql_sentencia L db h t clave valor_clave datos esq c = (Inr s, h')"
  shows "\<exists>a h1 valores.
           dict_copia h datos = (a, h1) \<and> cifrar_datos L c a h1 = (None, h') \<and>
           ligar_valores (\<lambda>k. ''p_'' @ k)
             (\<lambda>key val. convertir_valor_mysql L val (detectar_tipo_columna_mysql db t key))
             (h' ! a) [] = Inr valores \<and>
           s = \<lparr>sql = plantilla 12
                  [''UPDATE '' @ prefijo_esquema esq @ acento @ t @ acento,
                   ''SET '' @ join '', ''
                      (map (\<lambda>k. acento @ k @ acento @ '' = :p_'' @ k) (map fst (h ! datos))),
                   ''WHERE '' @ acento @ clave @ acento @ '' = :valor_clave''],
                parametros = AList.update ''valor_clave'' (VStr valor_clave) valores\<rparr>"
proof -
  obtain a h1 where c1: "dict_copia h datos = (a, h1)" by (cases "dict_copia h datos")
  obtain er h2 where c2: "cifrar_datos L c a h1 = (er, h2)" by (cases "cifrar_datos L c a h1")
  note k = copia_cifrada(4)[OF c1 c2]
  from assms show ?thesis
    unfolding actualizar_mysql_sentencia_def
    by (auto simp: c1 c2 k Let_def envolver_Inr con_valores_Inr con_clave_Inr append_uno
        split: if_splits option.splits)
qed

lemma marco_copia:
  assumes "dict_copia h datos = (a, h1)" and "cifrar_datos L c a h1 = (e, h2)" and "b < length h"
  shows "h2 ! b = h ! b"
  using copia_cifrada(3)[OF assms(1,2)] assms(3) by simp

lemma crear_marco:
  assumes "b < length h"
  shows "snd (crear_sqlserver L db h t datos e c) ! b = h ! b"
    and "snd (crear_postgresql L db h t datos e c) ! b = h ! b"
    and "snd (crear_mysql L db h t datos e c) ! b = h ! b"
proof -
  obtain a h1 where c1: "dict_copia h datos = (a, h1)" by (cases "dict_copia h datos")
  obtain er h2 where c2: "cifrar_datos L c a h1 = (er, h2)" by (cases "cifrar_datos L c a h1")
  note m = marco_copia[OF c1 c2 assms]
  show "snd (crear_sqlserver L db h t datos e c) ! b = h ! b"
    by (simp add: crear_sqlserver_def crear_sqlserver_sentencia_def c1 c2 m Let_def
        split: option.splits prod.splits)
  show "snd (crear_postgresql L db h t datos e c) ! b = h ! b"
    by (simp add: crear_postgresql_def crear_postgresql_sentencia_def c1 c2 m Let_def
        split: option.splits prod.splits)
  show "snd (crear_mysql L db h t datos e c) ! b = h ! b"
    by (simp add: crear_mysql_def crear_mysql_sentencia_def c1 c2 m Let_def
        split: option.splits prod.splits)
qed

lemma actualizar_marco:
  assumes "b < length h"
  shows "snd (actualizar_sqlserver L db h t k v datos e c) ! b = h ! b"
    and "snd (actualizar_postgresql L db h t k v datos e c) ! b = h ! b"
    and "snd (actualizar_mysql L db h t k v datos e c) ! b = h ! b"
proof -
  obtain a h1 where c1: "dict_copia h datos = (a, h1)" by (cases "dict_copia h datos")
  obtain er h2 where c2: "cifrar_datos L c a h1 = (er, h2)" by (cases "cifrar_datos L c a h1")
  note m = marco_copia[OF c1 c2 assms]
  show "snd (actualizar_sqlserver L db h t k v datos e c) ! b = h ! b"
    by (simp add: actualizar_sqlserver_def actualizar_sqlserver_sentencia_def c1 c2 m Let_def
        split: option.splits prod.splits)
  show "snd (actualizar_postgresql L db h t k v datos e c) ! b = h ! b"
    by (simp add: actualizar_postgresql_def actualizar_postgresql_sentencia_def c1 c2 m Let_def
        split: option.splits prod.splits)
  show "snd (actualizar_mysql L db h t k v datos e c) ! b = h ! b"
    by (simp add: actualizar_mysql_def actualizar_mysql_sentencia_def c1 c2 m Let_def
        split: option.splits prod.splits)
qed






lemma strip_no_vacio: "\<not> py_isspace c \<Longrightarrow> py_strip (c # s) \<noteq> []"
  by (simp add: py_strip_def dropWhile_eq_Nil_conv)



lemma campos_ejemplo: "campos_a_encriptar ''clave, PIN'' = [''clave'', ''pin'']"
  by (simp add: campos_a_encriptar_def cadena_simps)

lemma lower_ejemplo:
  "py_lower ''Clave'' = ''clave''" "py_lower ''usuario'' = ''usuario''"
  "py_lower ''pin'' = ''pin''" "py_lower ''clave'' = ''clave''"
  by (simp_all add: cadena_simps)

lemma encriptar_ejemplo:
  "encriptar biblioteca_ejemplo j ''secreto'' COSTO_POR_DEFECTO = Inr ''$2b$12$secreto''"
  by (simp add: encriptar_def biblioteca_ejemplo_def COSTO_POR_DEFECTO_def no_vacio_ejemplos
      cifra_def)

lemma cifrar_ejemplo:
  "cifrar_datos biblioteca_ejemplo (Some ''clave, PIN'') (Suc 0)
     [[(''usuario'', VStr ''ana''), (''Clave'', VStr ''secreto'')],
      [(''usuario'', VStr ''ana''), (''Clave'', VStr ''secreto'')]] =
   (None, [[(''usuario'', VStr ''ana''), (''Clave'', VStr ''secreto'')],
           [(''usuario'', VStr ''ana''), (''Clave'', VStr ''$2b$12$secreto'')]])"
  by (simp add: cifrar_datos_def campos_ejemplo lower_ejemplo encriptar_ejemplo dict_set_def)

section \<open>Fields named by the encryption directive\<close>

lemma crear_ejemplo:
  "crear_sqlserver_sentencia biblioteca_ejemplo bd_caida
     [[(''usuario'', VStr ''ana''), (''Clave'', VStr ''secreto'')]]
     ''usuarios'' 0 None (Some ''clave, PIN'') =
   (Inr \<lparr>sql = ''INSERT INTO [dbo].[usuarios] ([usuario], [Clave]) VALUES (:usuario, :Clave)'',
         parametros = [(''usuario'', VStr ''ana''), (''Clave'', VStr ''$2b$12$secreto'')]\<rparr>,
    [[(''usuario'', VStr ''ana''), (''Clave'', VStr ''secreto'')],
     [(''usuario'', VStr ''ana''), (''Clave'', VStr ''$2b$12$secreto'')]])"
  "crear_postgresql_sentencia biblioteca_ejemplo bd_caida
     [[(''usuario'', VStr ''ana''), (''Clave'', VStr ''secreto'')]]
     ''usuarios'' 0 None (Some ''clave, PIN'') =
   (Inr \<lparr>sql = ''INSERT INTO '' @ comillas @ ''public'' @ comillas @ ''.'' @
                  comillas @ ''usuarios'' @ comillas @ '' ('' @
                  comillas @ ''usuario'' @ comillas @ '', '' @ comillas @ ''Clave'' @ comillas @
                  '') VALUES (:usuario, :Clave)'',
         parametros = [(''usuario'', VStr ''ana''), (''Clave'', VStr ''$2b$12$secreto'')]\<rparr>,
    [[(''usuario'', VStr ''ana''), (''Clave'', VStr ''secreto'')],
     [(''usuario'', VStr ''ana''), (''Clave'', VStr ''$2b$12$secreto'')]])"
  "crear_mysql_sentencia biblioteca_ejemplo bd_caida
     [[(''usuario'', VStr ''ana''), (''Clave'', VStr ''secreto'')]]
     ''usuarios'' 0 None (Some ''clave, PIN'') =
   (Inr \<lparr>sql = ''INSERT INTO '' @ acento @ ''usuarios'' @ acento @ '' ('' @
                  acento @ ''usuario'' @ acento @ '', '' @ acento @ ''Clave'' @ acento @
                  '') VALUES (:p_usuario, :p_Clave)'',
         parametros = [(''p_usuario'', VStr ''ana''), (''p_Clave'', VStr ''$2b$12$secreto'')]\<rparr>,
    [[(''usuario'', VStr ''ana''), (''Clave'', VStr ''secreto'')],
     [(''usuario'', VStr ''ana''), (''Clave'', VStr ''$2b$12$secreto'')]])"
  by (simp_all add: crear_sqlserver_sentencia_def crear_postgresql_sentencia_def
      crear_mysql_sentencia_def no_vacio_ejemplos dict_copia_def cifrar_ejemplo
      py_strip_defecto detectar_bd_caida convertir_valor_sqlserver_def
      convertir_valor_postgresql_def convertir_valor_mysql_def Let_def)

lemma actualizar_ejemplo:
  "actualizar_sqlserver_sentencia biblioteca_ejemplo bd_caida
     [[(''usuario'', VStr ''ana''), (''Clave'', VStr ''secreto'')]]
     ''usuarios'' ''id'' ''30'' 0 None (Some ''clave, PIN'') =
   (Inr \<lparr>sql = plantilla 12
           [''UPDATE [dbo].[usuarios]'',
            ''SET [usuario] = :usuario, [Clave] = :Clave'',
            ''WHERE [id] = :valor_clave''],
         parametros = [(''usuario'', VStr ''ana''), (''Clave'', VStr ''$2b$12$secreto''),
                       (''valor_clave'', VStr ''30'')]\<rparr>,
    [[(''usuario'', VStr ''ana''), (''Clave'', VStr ''secreto'')],
     [(''usuario'', VStr ''ana''), (''Clave'', VStr ''$2b$12$secreto'')]])"
  "actualizar_postgresql_sentencia biblioteca_ejemplo bd_caida
     [[(''usuario'', VStr ''ana''), (''Clave'', VStr ''secreto'')]]
     ''usuarios'' ''id'' ''30'' 0 None (Some ''clave, PIN'') =
   (Inr \<lparr>sql = plantilla 12
           [''UPDATE '' @ comillas @ ''public'' @ comillas @ ''.'' @
              comillas @ ''usuarios'' @ comillas,
            ''SET '' @ comillas @ ''usuario'' @ comillas @ '' = :usuario, '' @
              comillas @ ''Clave'' @ comillas @ '' = :Clave'',
            ''WHERE '' @ comillas @ ''id'' @ comillas @ '' = :valor_clave''],
         parametros = [(''usuario'', VStr ''ana''), (''Clave'', VStr ''$2b$12$secreto''),
                       (''valor_clave'', VStr ''30'')]\<rparr>,
    [[(''usuario'', VStr ''ana''), (''Clave'', VStr ''secreto'')],
     [(''usuario'', VStr ''ana''), (''Clave'', VStr ''$2b$12$secreto'')]])"
  "actualizar_mysql_sentencia biblioteca_ejemplo bd_caida
     [[(''usuario'', VStr ''ana''), (''Clave'', VStr ''secreto'')]]
     ''usuarios'' ''id'' ''30'' 0 None (Some ''clave, PIN'') =
   (Inr \<lparr>sql = plantilla 12
           [''UPDATE '' @ acento @ ''usuarios'' @ acento,
            ''SET '' @ acento @ ''usuario'' @ acento @ '' = :p_usuario, '' @
              acento @ ''Clave'' @ acento @ '' = :p_Clave'',
            ''WHERE '' @ acento @ ''id'' @ acento @ '' = :valor_clave''],
         parametros = [(''p_usuario'', VStr ''ana''), (''p_Clave'', VStr ''$2b$12$secreto''),
                       (''valor_clave'', VStr ''30'')]\<rparr>,
    [[(''usuario'', VStr ''ana''), (''Clave'', VStr ''secreto'')],
     [(''usuario'', VStr ''ana''), (''Clave'', VStr ''$2b$12$secreto'')]])"
  by (simp_all add: actualizar_sqlserver_sentencia_def actualizar_postgresql_sentencia_def
      actualizar_mysql_sentencia_def no_vacio_ejemplos dict_copia_def cifrar_ejemplo
      py_strip_defecto detectar_bd_caida convertir_valor_sqlserver_def
      convertir_valor_postgresql_def convertir_valor_mysql_def Let_def)






section \<open>The caller's payload\<close>

text \<open>
  Claim C10. In every dialect \<open>crear\<close> and \<open>actualizar\<close> leave the caller's payload
  dictionary as it was, whether they return or fail: the hashes of an \<open>encrypt_fields\<close>
  directive are written to a copy. The payload is the object at address \<open>datos\<close> of the
  heap; after the operation it holds the items it held before.
\<close>

theorem payload_intacto:
  assumes "datos < length h"
  shows "snd (crear_sqlserver L db h t datos e c) ! datos = h ! datos \<and>
         snd (crear_postgresql L db h t datos e c) ! datos = h ! datos \<and>
         snd (crear_mysql L db h t datos e c) ! datos = h ! datos \<and>
         snd (actualizar_sqlserver L db h t k v datos e c) ! datos = h ! datos \<and>
         snd (actualizar_postgresql L db h t k v datos e c) ! datos = h ! datos \<and>
         snd (actualizar_mysql L db h t k v datos e c) ! datos = h ! datos"
  using crear_marco[OF assms] actualizar_marco[OF assms] by simp

theorem payload_intacto_testigo:
  "(0::nat) < length [[(''usuario'', VStr ''ana''), (''Clave'', VStr ''secreto'')]] \<and>
   snd (crear_sqlserver biblioteca_ejemplo bd_caida
          [[(''usuario'', VStr ''ana''), (''Clave'', VStr ''secreto'')]]
          ''usuarios'' 0 None (Some ''clave, PIN'')) =
     [[(''usuario'', VStr ''ana''), (''Clave'', VStr ''secreto'')],
      [(''usuario'', VStr ''ana''), (''Clave'', VStr ''$2b$12$secreto'')]] \<and>
   snd (crear_sqlserver biblioteca_ejemplo bd_caida
          [[(''usuario'', VStr ''ana''), (''Clave'', VStr ''secreto'')]]
          ''usuarios'' 0 None (Some ''clave, PIN'')) ! 0 =
     [(''usuario'', VStr ''ana''), (''Clave'', VStr ''secreto'')] \<and>
   snd (actualizar_mysql biblioteca_ejemplo bd_caida
          [[(''usuario'', VStr ''ana''), (''Clave'', VStr ''secreto'')]]
          ''usuarios'' ''id'' ''30'' 0 None (Some ''clave, PIN'')) ! 0 =
     [(''usuario'', VStr ''ana''), (''Clave'', VStr ''secreto'')]"
  using payload_intacto
    [where h = "[[(''usuario'', VStr ''ana''), (''Clave'', VStr ''secreto'')]]"
       and datos = 0 and L = biblioteca_ejemplo and db = bd_caida and t = "''usuarios''"
       and e = None and c = "Some ''clave, PIN''" and k = "''id''" and v = "''30''"]
  by (simp add: crear_sqlserver_def crear_ejemplo)

section \<open>The schema of a statement\<close>

lemma sin_esquema_sqlserver:
  "obtener_filas_sqlserver_sentencia t None lim = Inr s \<Longrightarrow>
     sql s = ''SELECT TOP ('' @ str_int (o_limite lim) @ '') * FROM [dbo].['' @ t @ '']''"
  "obtener_por_clave_sqlserver_sentencia L db t k v None = Inr s \<Longrightarrow>
     sql s = plantilla 20 [''SELECT * FROM [dbo].['' @ t @ '']'',
                           ''WHERE CAST(['' @ k @ ''] AS DATE) = :valor''] \<or>
     sql s = plantilla 20 [''SELECT * FROM [dbo].['' @ t @ '']'',
                           ''WHERE ['' @ k @ ''] = :valor'']"
  "eliminar_sqlserver_sentencia L db t k v None = Inr s \<Longrightarrow>
     sql s = plantilla 12 [''DELETE FROM [dbo].['' @ t @ '']'',
                           ''WHERE ['' @ k @ ''] = :valor_clave'']"
  "obtener_hash_contrasena_sqlserver_sentencia t cu cc vu None = Inr s \<Longrightarrow>
     sql s = plantilla 12 [''SELECT ['' @ cc @ '']'',
                           ''FROM [dbo].['' @ t @ '']'',
                           ''WHERE ['' @ cu @ ''] = :valor_usuario'']"
  by (auto simp: obtener_filas_sqlserver_sentencia_def obtener_por_clave_sqlserver_sentencia_def
      eliminar_sqlserver_sentencia_def obtener_hash_contrasena_sqlserver_sentencia_def
      py_strip_defecto envolver_Inr con_valor_Inr Let_def split: if_splits)

lemma sin_esquema_postgresql:
  "obtener_filas_postgresql_sentencia t None lim = Inr s \<Longrightarrow>
     sql s = ''SELECT * FROM '' @ comillas @ ''public'' @ comillas @ ''.'' @
             comillas @ t @ comillas @ '' LIMIT :limite''"
  "obtener_por_clave_postgresql_sentencia L db t k v None = Inr s \<Longrightarrow>
     sql s = plantilla 20
       [''SELECT * FROM '' @ comillas @ ''public'' @ comillas @ ''.'' @ comillas @ t @ comillas,
        ''WHERE CAST('' @ comillas @ k @ comillas @ '' AS DATE) = :valor''] \<or>
     sql s = plantilla 20
       [''SELECT * FROM '' @ comillas @ ''public'' @ comillas @ ''.'' @ comillas @ t @ comillas,
        ''WHERE '' @ comillas @ k @ comillas @ '' = :valor'']"
  "eliminar_postgresql_sentencia L db t k v None = Inr s \<Longrightarrow>
     sql s = plantilla 12
       [''DELETE FROM '' @ comillas @ ''public'' @ comillas @ ''.'' @ comillas @ t @ comillas,
        ''WHERE '' @ comillas @ k @ comillas @ '' = :valor_clave'']"
  "obtener_hash_contrasena_postgresql_sentencia t cu cc vu None = Inr s \<Longrightarrow>
     sql s = plantilla 12
       [''SELECT '' @ comillas @ cc @ comillas,
        ''FROM '' @ comillas @ ''public'' @ comillas @ ''.'' @ comillas @ t @ comillas,
        ''WHERE '' @ comillas @ cu @ comillas @ '' = :valor_usuario'']"
  by (auto simp: obtener_filas_postgresql_sentencia_def obtener_por_clave_postgresql_sentencia_def
      eliminar_postgresql_sentencia_def obtener_hash_contrasena_postgresql_sentencia_def
      py_strip_defecto envolver_Inr con_valor_Inr Let_def split: if_splits)

lemma sin_esquema_mysql:
  "obtener_filas_mysql_sentencia t None lim = Inr s \<Longrightarrow>
     sql s = ''SELECT * FROM '' @ acento @ t @ acento @ '' LIMIT :limite''"
  "obtener_por_clave_mysql_sentencia L db t k v None = Inr s \<Longrightarrow>
     sql s = plantilla 20 [''SELECT * FROM '' @ acento @ t @ acento,
                           ''WHERE DATE('' @ acento @ k @ acento @ '') = :valor''] \<or>
     sql s = plantilla 20 [''SELECT * FROM '' @ acento @ t @ acento,
                           ''WHERE '' @ acento @ k @ acento @ '' = :valor'']"
  "eliminar_mysql_sentencia t k v None = Inr s \<Longrightarrow>
     sql s = plantilla 12 [''DELETE FROM '' @ acento @ t @ acento,
                           ''WHERE '' @ acento @ k @ acento @ '' = :valor_clave'']"
  "obtener_hash_contrasena_mysql_sentencia t cu cc vu None = Inr s \<Longrightarrow>
     sql s = plantilla 12 [''SELECT '' @ acento @ cc @ acento,
                           ''FROM '' @ acento @ t @ acento,
                           ''WHERE '' @ acento @ cu @ acento @ '' = :valor_usuario'',
                           ''LIMIT 1'']"
  by (auto simp: obtener_filas_mysql_sentencia_def obtener_por_clave_mysql_sentencia_def
      eliminar_mysql_sentencia_def obtener_hash_contrasena_mysql_sentencia_def
      envolver_Inr con_valor_Inr Let_def split: if_splits)

lemma sin_esquema_crear:
  "crear_sqlserver_sentencia L db h t datos None c = (Inr s, h') \<Longrightarrow>
     sql s = ''INSERT INTO [dbo].['' @ t @ ''] ('' @
             join '', '' (map (\<lambda>k. ''['' @ k @ '']'') (map fst (h ! datos))) @
             '') VALUES ('' @ join '', '' (map (\<lambda>k. '':'' @ k) (map fst (h ! datos))) @ '')''"
  "crear_postgresql_sentencia L db h t datos None c = (Inr s, h') \<Longrightarrow>
     sql s = ''INSERT INTO '' @ comillas @ ''public'' @ comillas @ ''.'' @
             comillas @ t @ comillas @ '' ('' @
             join '', '' (map (\<lambda>k. comillas @ k @ comillas) (map fst (h ! datos))) @
             '') VALUES ('' @ join '', '' (map (\<lambda>k. '':'' @ k) (map fst (h ! datos))) @ '')''"
  "crear_mysql_sentencia L db h t datos None c = (Inr s, h') \<Longrightarrow>
     sql s = ''INSERT INTO '' @ acento @ t @ acento @ '' ('' @
             join '', '' (map (\<lambda>k. acento @ k @ acento) (map fst (h ! datos))) @
             '') VALUES ('' @ join '', '' (map (\<lambda>k. '':p_'' @ k) (map fst (h ! datos))) @ '')''"
  by (auto dest!: crear_sqlserver_forma crear_postgresql_forma crear_mysql_forma
      simp: py_strip_defecto)

lemma sin_esquema_actualizar:
  "actualizar_sqlserver_sentencia L db h t k v datos None c = (Inr s, h') \<Longrightarrow>
     sql s = plantilla 12
       [''UPDATE [dbo].['' @ t @ '']'',
        ''SET '' @ join '', '' (map (\<lambda>k. ''['' @ k @ ''] = :'' @ k) (map fst (h ! datos))),
        ''WHERE ['' @ k @ ''] = :valor_clave'']"
  "actualizar_postgresql_sentencia L db h t k v datos None c = (Inr s, h') \<Longrightarrow>
     sql s = plantilla 12
       [''UPDATE '' @ comillas @ ''public'' @ comillas @ ''.'' @ comillas @ t @ comillas,
        ''SET '' @ join '', ''
           (map (\<lambda>k. comillas @ k @ comillas @ '' = :'' @ k) (map fst (h ! datos))),
        ''WHERE '' @ comillas @ k @ comillas @ '' = :valor_clave'']"
  "actualizar_mysql_sentencia L db h t k v datos None c = (Inr s, h') \<Longrightarrow>
     sql s = plantilla 12
       [''UPDATE '' @ acento @ t @ acento,
        ''SET '' @ join '', ''
           (map (\<lambda>k. acento @ k @ acento @ '' = :p_'' @ k) (map fst (h ! datos))),
        ''WHERE '' @ acento @ k @ acento @ '' = :valor_clave'']"
  by (auto dest!: actualizar_sqlserver_forma actualizar_postgresql_forma actualizar_mysql_forma
      simp: py_strip_defecto)

text \<open>
  Claim C7. When the schema argument is omitted, every statement the SQL Server dialect
  builds qualifies the table with \<open>dbo\<close>, every statement the PostgreSQL dialect builds
  qualifies it with \<open>public\<close>, and the statements of the MySQL/MariaDB dialect carry no
  schema qualifier: the table follows \<open>FROM\<close>, \<open>INTO\<close> or \<open>UPDATE\<close> directly. The
  statements are those of the six operations of each dialect.
\<close>

theorem esquema_omitido:
  "(obtener_filas_sqlserver_sentencia t None lim = Inr s \<longrightarrow>
      sql s = ''SELECT TOP ('' @ str_int (o_limite lim) @ '') * FROM [dbo].['' @ t @ '']'') \<and>
   (obtener_por_clave_sqlserver_sentencia L db t k v None = Inr s \<longrightarrow>
      sql s = plantilla 20 [''SELECT * FROM [dbo].['' @ t @ '']'',
                            ''WHERE CAST(['' @ k @ ''] AS DATE) = :valor''] \<or>
      sql s = plantilla 20 [''SELECT * FROM [dbo].['' @ t @ '']'',
                            ''WHERE ['' @ k @ ''] = :valor'']) \<and>
   (crear_sqlserver_sentencia L db h t datos None c = (Inr s, h') \<longrightarrow>
      sql s = ''INSERT INTO [dbo].['' @ t @ ''] ('' @
              join '', '' (map (\<lambda>k. ''['' @ k @ '']'') (map fst (h ! datos))) @
              '') VALUES ('' @ join '', '' (map (\<lambda>k. '':'' @ k) (map fst (h ! datos))) @ '')'') \<and>
   (actualizar_sqlserver_sentencia L db h t k v datos None c = (Inr s, h') \<longrightarrow>
      sql s = plantilla 12
        [''UPDATE [dbo].['' @ t @ '']'',
         ''SET '' @ join '', '' (map (\<lambda>k. ''['' @ k @ ''] = :'' @ k) (map fst (h ! datos))),
         ''WHERE ['' @ k @ ''] = :valor_clave'']) \<and>
   (eliminar_sqlserver_sentencia L db t k v None = Inr s \<longrightarrow>
      sql s = plantilla 12 [''DELETE FROM [dbo].['' @ t @ '']'',
                            ''WHERE ['' @ k @ ''] = :valor_clave'']) \<and>
   (obtener_hash_contrasena_sqlserver_sentencia t cu cc vu None = Inr s \<longrightarrow>
      sql s = plantilla 12 [''SELECT ['' @ cc @ '']'',
                            ''FROM [dbo].['' @ t @ '']'',
                            ''WHERE ['' @ cu @ ''] = :valor_usuario'']) \<and>
   (obtener_filas_postgresql_sentencia t None lim = Inr s \<longrightarrow>
      sql s = ''SELECT * FROM '' @ comillas @ ''public'' @ comillas @ ''.'' @
              comillas @ t @ comillas @ '' LIMIT :limite'') \<and>
   (obtener_por_clave_postgresql_sentencia L db t k v None = Inr s \<longrightarrow>
      sql s = plantilla 20
        [''SELECT * FROM '' @ comillas @ ''public'' @ comillas @ ''.'' @ comillas @ t @ comillas,
         ''WHERE CAST('' @ comillas @ k @ comillas @ '' AS DATE) = :valor''] \<or>
      sql s = plantilla 20
        [''SELECT * FROM '' @ comillas @ ''public'' @ comillas @ ''.'' @ comillas @ t @ comillas,
         ''WHERE '' @ comillas @ k @ comillas @ '' = :valor'']) \<and>
   (crear_postgresql_sentencia L db h t datos None c = (Inr s, h') \<longrightarrow>
      sql s = ''INSERT INTO '' @ comillas @ ''public'' @ comillas @ ''.'' @
              comillas @ t @ comillas @ '' ('' @
              join '', '' (map (\<lambda>k. comillas @ k @ comillas) (map fst (h ! datos))) @
              '') VALUES ('' @ join '', '' (map (\<lambda>k. '':'' @ k) (map fst (h ! datos))) @ '')'') \<and>
   (actualizar_postgresql_sentencia L db h t k v datos None c = (Inr s, h') \<longrightarrow>
      sql s = plantilla 12
        [''UPDATE '' @ comillas @ ''public'' @ comillas @ ''.'' @ comillas @ t @ comillas,
         ''SET '' @ join '', ''
            (map (\<lambda>k. comillas @ k @ comillas @ '' = :'' @ k) (map fst (h ! datos))),
         ''WHERE '' @ comillas @ k @ comillas @ '' = :valor_clave'']) \<and>
   (eliminar_postgresql_sentencia L db t k v None = Inr s \<longrightarrow>
      sql s = plantilla 12
        [''DELETE FROM '' @ comillas @ ''public'' @ comillas @ ''.'' @ comillas @ t @ comillas,
         ''WHERE '' @ comillas @ k @ comillas @ '' = :valor_clave'']) \<and>
   (obtener_hash_contrasena_postgresql_sentencia t cu cc vu None = Inr s \<longrightarrow>
      sql s = plantilla 12
        [''SELECT '' @ comillas @ cc @ comillas,
         ''FROM '' @ comillas @ ''public'' @ comillas @ ''.'' @ comillas @ t @ comillas,
         ''WHERE '' @ comillas @ cu @ comillas @ '' = :valor_usuario'']) \<and>
   (obtener_filas_mysql_sentencia t None lim = Inr s \<longrightarrow>
      sql s = ''SELECT * FROM '' @ acento @ t @ acento @ '' LIMIT :limite'') \<and>
   (obtener_por_clave_mysql_sentencia L db t k v None = Inr s \<longrightarrow>
      sql s = plantilla 20 [''SELECT * FROM '' @ acento @ t @ acento,
                            ''WHERE DATE('' @ acento @ k @ acento @ '') = :valor''] \<or>
      sql s = plantilla 20 [''SELECT * FROM '' @ acento @ t @ acento,
                            ''WHERE '' @ acento @ k @ acento @ '' = :valor'']) \<and>
   (crear_mysql_sentencia L db h t datos None c = (Inr s, h') \<longrightarrow>
      sql s = ''INSERT INTO '' @ acento @ t @ acento @ '' ('' @
              join '', '' (map (\<lambda>k. acento @ k @ acento) (map fst (h ! datos))) @
              '') VALUES ('' @ join '', '' (map (\<lambda>k. '':p_'' @ k) (map fst (h ! datos))) @ '')'') \<and>
   (actualizar_mysql_sentencia L db h t k v datos None c = (Inr s, h') \<longrightarrow>
      sql s = plantilla 12
        [''UPDATE '' @ acento @ t @ acento,
         ''SET '' @ join '', ''
            (map (\<lambda>k. acento @ k @ acento @ '' = :p_'' @ k) (map fst (h ! datos))),
         ''WHERE '' @ acento @ k @ acento @ '' = :valor_clave'']) \<and>
   (eliminar_mysql_sentencia t k v None = Inr s \<longrightarrow>
      sql s = plantilla 12 [''DELETE FROM '' @ acento @ t @ acento,
                            ''WHERE '' @ acento @ k @ acento @ '' = :valor_clave'']) \<and>
   (obtener_hash_contrasena_mysql_sentencia t cu cc vu None = Inr s \<longrightarrow>
      sql s = plantilla 12 [''SELECT '' @ acento @ cc @ acento,
                            ''FROM '' @ acento @ t @ acento,
                            ''WHERE '' @ acento @ cu @ acento @ '' = :valor_usuario'',
                            ''LIMIT 1''])"
  by (intro conjI impI sin_esquema_sqlserver sin_esquema_postgresql
      sin_esquema_mysql sin_esquema_crear sin_esquema_actualizar)


lemma sentencias_ejemplo:
  "obtener_filas_sqlserver_sentencia ''usuarios'' None None =
     Inr \<lparr>sql = ''SELECT TOP (1000) * FROM [dbo].[usuarios]'', parametros = []\<rparr>"
  "obtener_filas_postgresql_sentencia ''usuarios'' None None =
     Inr \<lparr>sql = ''SELECT * FROM '' @ comillas @ ''public'' @ comillas @ ''.'' @
                  comillas @ ''usuarios'' @ comillas @ '' LIMIT :limite'',
          parametros = [(''limite'', VInt 1000)]\<rparr>"
  "obtener_filas_mysql_sentencia ''usuarios'' None None =
     Inr \<lparr>sql = ''SELECT * FROM '' @ acento @ ''usuarios'' @ acento @ '' LIMIT :limite'',
          parametros = [(''limite'', VInt 1000)]\<rparr>"
  "obtener_por_clave_sqlserver_sentencia biblioteca_ejemplo bd_caida ''usuarios'' ''id'' ''30'' None =
     Inr \<lparr>sql = plantilla 20 [''SELECT * FROM [dbo].[usuarios]'', ''WHERE [id] = :valor''],
          parametros = [(''valor'', VStr ''30'')]\<rparr>"
  "obtener_por_clave_postgresql_sentencia biblioteca_ejemplo bd_caida ''usuarios'' ''id'' ''30'' None =
     Inr \<lparr>sql = plantilla 20
            [''SELECT * FROM '' @ comillas @ ''public'' @ comillas @ ''.'' @
               comillas @ ''usuarios'' @ comillas,
             ''WHERE '' @ comillas @ ''id'' @ comillas @ '' = :valor''],
          parametros = [(''valor'', VStr ''30'')]\<rparr>"
  "obtener_por_clave_mysql_sentencia biblioteca_ejemplo bd_caida ''usuarios'' ''id'' ''30'' None =
     Inr \<lparr>sql = plantilla 20
            [''SELECT * FROM '' @ acento @ ''usuarios'' @ acento,
             ''WHERE '' @ acento @ ''id'' @ acento @ '' = :valor''],
          parametros = [(''valor'', VStr ''30'')]\<rparr>"
  "eliminar_sqlserver_sentencia biblioteca_ejemplo bd_caida ''usuarios'' ''id'' ''30'' None =
     Inr \<lparr>sql = plantilla 12 [''DELETE FROM [dbo].[usuarios]'', ''WHERE [id] = :valor_clave''],
          parametros = [(''valor_clave'', VStr ''30'')]\<rparr>"
  "eliminar_postgresql_sentencia biblioteca_ejemplo bd_caida ''usuarios'' ''id'' ''30'' None =
     Inr \<lparr>sql = plantilla 12
            [''DELETE FROM '' @ comillas @ ''public'' @ comillas @ ''.'' @
               comillas @ ''usuarios'' @ comillas,
             ''WHERE '' @ comillas @ ''id'' @ comillas @ '' = :valor_clave''],
          parametros = [(''valor_clave'', VStr ''30'')]\<rparr>"
  "obtener_hash_contrasena_sqlserver_sentencia ''usuarios'' ''email'' ''clave'' ''a@b.com'' None =
     Inr \<lparr>sql = plantilla 12
            [''SELECT [clave]'', ''FROM [dbo].[usuarios]'', ''WHERE [email] = :valor_usuario''],
          parametros = [(''valor_usuario'', VStr ''a@b.com'')]\<rparr>"
  "obtener_hash_contrasena_postgresql_sentencia ''usuarios'' ''email'' ''clave'' ''a@b.com'' None =
     Inr \<lparr>sql = plantilla 12
            [''SELECT '' @ comillas @ ''clave'' @ comillas,
             ''FROM '' @ comillas @ ''public'' @ comillas @ ''.'' @
               comillas @ ''usuarios'' @ comillas,
             ''WHERE '' @ comillas @ ''email'' @ comillas @ '' = :valor_usuario''],
          parametros = [(''valor_usuario'', VStr ''a@b.com'')]\<rparr>"
  "obtener_hash_contrasena_mysql_sentencia ''usuarios'' ''email'' ''clave'' ''a@b.com'' None =
     Inr \<lparr>sql = plantilla 12
            [''SELECT '' @ acento @ ''clave'' @ acento,
             ''FROM '' @ acento @ ''usuarios'' @ acento,
             ''WHERE '' @ acento @ ''email'' @ acento @ '' = :valor_usuario'',
             ''LIMIT 1''],
          parametros = [(''valor_usuario'', VStr ''a@b.com'')]\<rparr>"
  by (simp_all add: obtener_filas_sqlserver_sentencia_def obtener_filas_postgresql_sentencia_def
      obtener_filas_mysql_sentencia_def obtener_por_clave_sqlserver_sentencia_def
      obtener_por_clave_postgresql_sentencia_def obtener_por_clave_mysql_sentencia_def
      eliminar_sqlserver_sentencia_def eliminar_postgresql_sentencia_def
      obtener_hash_contrasena_sqlserver_sentencia_def
      obtener_hash_contrasena_postgresql_sentencia_def
      obtener_hash_contrasena_mysql_sentencia_def
      no_vacio_ejemplos py_strip_defecto detectar_bd_caida convertir_valor_sqlserver_def
      convertir_valor_postgresql_def convertir_valor_mysql_def str_int_def cifra_def)


theorem esquema_omitido_testigo:
  "(\<exists>s. obtener_filas_sqlserver_sentencia ''usuarios'' None None = Inr s \<and>
        sql s = ''SELECT TOP (1000) * FROM [dbo].[usuarios]'') \<and>
   (\<exists>s. obtener_por_clave_sqlserver_sentencia biblioteca_ejemplo bd_caida
          ''usuarios'' ''id'' ''30'' None = Inr s \<and>
        sql s = plantilla 20 [''SELECT * FROM [dbo].[usuarios]'', ''WHERE [id] = :valor'']) \<and>
   (\<exists>s h'. crear_sqlserver_sentencia biblioteca_ejemplo bd_caida
          [[(''usuario'', VStr ''ana''), (''Clave'', VStr ''secreto'')]]
          ''usuarios'' 0 None (Some ''clave, PIN'') = (Inr s, h') \<and>
        sql s = ''INSERT INTO [dbo].[usuarios] ([usuario], [Clave]) VALUES (:usuario, :Clave)'') \<and>
   (\<exists>s h'. actualizar_sqlserver_sentencia biblioteca_ejemplo bd_caida
          [[(''usuario'', VStr ''ana''), (''Clave'', VStr ''secreto'')]]
          ''usuarios'' ''id'' ''30'' 0 None (Some ''clave, PIN'') = (Inr s, h') \<and>
        sql s = plantilla 12
          [''UPDATE [dbo].[usuarios]'', ''SET [usuario] = :usuario, [Clave] = :Clave'',
           ''WHERE [id] = :valor_clave'']) \<and>
   (\<exists>s. eliminar_sqlserver_sentencia biblioteca_ejemplo bd_caida
          ''usuarios'' ''id'' ''30'' None = Inr s \<and>
        sql s = plantilla 12 [''DELETE FROM [dbo].[usuarios]'', ''WHERE [id] = :valor_clave'']) \<and>
   (\<exists>s. obtener_hash_contrasena_sqlserver_sentencia
          ''usuarios'' ''email'' ''clave'' ''a@b.com'' None = Inr s \<and>
        sql s = plantilla 12
          [''SELECT [clave]'', ''FROM [dbo].[usuarios]'', ''WHERE [email] = :valor_usuario'']) \<and>
   (\<exists>s. obtener_filas_postgresql_sentencia ''usuarios'' None None = Inr s \<and>
        sql s = ''SELECT * FROM '' @ comillas @ ''public'' @ comillas @ ''.'' @
                comillas @ ''usuarios'' @ comillas @ '' LIMIT :limite'') \<and>
   (\<exists>s. eliminar_postgresql_sentencia biblioteca_ejemplo bd_caida
          ''usuarios'' ''id'' ''30'' None = Inr s \<and>
        sql s = plantilla 12
          [''DELETE FROM '' @ comillas @ ''public'' @ comillas @ ''.'' @
             comillas @ ''usuarios'' @ comillas,
           ''WHERE '' @ comillas @ ''id'' @ comillas @ '' = :valor_clave'']) \<and>
   (\<exists>s. obtener_filas_mysql_sentencia ''usuarios'' None None = Inr s \<and>
        sql s = ''SELECT * FROM '' @ acento @ ''usuarios'' @ acento @ '' LIMIT :limite'') \<and>
   (\<exists>s. obtener_por_clave_mysql_sentencia biblioteca_ejemplo bd_caida
          ''usuarios'' ''id'' ''30'' None = Inr s \<and>
        sql s = plantilla 20
          [''SELECT * FROM '' @ acento @ ''usuarios'' @ acento,
           ''WHERE '' @ acento @ ''id'' @ acento @ '' = :valor'']) \<and>
   (\<exists>s h'. crear_mysql_sentencia biblioteca_ejemplo bd_caida
          [[(''usuario'', VStr ''ana''), (''Clave'', VStr ''secreto'')]]
          ''usuarios'' 0 None (Some ''clave, PIN'') = (Inr s, h') \<and>
        sql s = ''INSERT INTO '' @ acento @ ''usuarios'' @ acento @ '' ('' @
                acento @ ''usuario'' @ acento @ '', '' @ acento @ ''Clave'' @ acento @
                '') VALUES (:p_usuario, :p_Clave)'') \<and>
   (\<exists>s. obtener_hash_contrasena_mysql_sentencia
          ''usuarios'' ''email'' ''clave'' ''a@b.com'' None = Inr s \<and>
        sql s = plantilla 12
          [''SELECT '' @ acento @ ''clave'' @ acento,
           ''FROM '' @ acento @ ''usuarios'' @ acento,
           ''WHERE '' @ acento @ ''email'' @ acento @ '' = :valor_usuario'',
           ''LIMIT 1''])"
proof -
  note c1 = esquema_omitido [THEN conjunct1, rule_format, OF sentencias_ejemplo(1)]
  note c2 = esquema_omitido
    [THEN conjunct2, THEN conjunct1, rule_format, OF sentencias_ejemplo(4)]
  note c3 = esquema_omitido
    [THEN conjunct2, THEN conjunct2, THEN conjunct1, rule_format, OF crear_ejemplo(1)]
  note c4 = esquema_omitido
    [THEN conjunct2, THEN conjunct2, THEN conjunct2, THEN conjunct1, rule_format,
     OF actualizar_ejemplo(1)]
  note c5 = esquema_omitido
    [THEN conjunct2, THEN conjunct2, THEN conjunct2, THEN conjunct2, THEN conjunct1,
     rule_format, OF sentencias_ejemplo(7)]
  note c6 = esquema_omitido
    [THEN conjunct2, THEN conjunct2, THEN conjunct2, THEN conjunct2, THEN conjunct2,
     THEN conjunct1, rule_format, OF sentencias_ejemplo(9)]
  note c7 = esquema_omitido
    [THEN conjunct2, THEN conjunct2, THEN conjunct2, THEN conjunct2, THEN conjunct2,
     THEN conjunct2, THEN conjunct1, rule_format, OF sentencias_ejemplo(2)]
  note c11 = esquema_omitido
    [THEN conjunct2, THEN conjunct2, THEN conjunct2, THEN conjunct2, THEN conjunct2,
     THEN conjunct2, THEN conjunct2, THEN conjunct2, THEN conjunct2, THEN conjunct2,
     THEN conjunct1, rule_format, OF sentencias_ejemplo(8)]
  note c13 = esquema_omitido
    [THEN conjunct2, THEN conjunct2, THEN conjunct2, THEN conjunct2, THEN conjunct2,
     THEN conjunct2, THEN conjunct2, THEN conjunct2, THEN conjunct2, THEN conjunct2,
     THEN conjunct2, THEN conjunct2, THEN conjunct1, rule_format, OF sentencias_ejemplo(3)]
  note c14 = esquema_omitido
    [THEN conjunct2, THEN conjunct2, THEN conjunct2, THEN conjunct2, THEN conjunct2,
     THEN conjunct2, THEN conjunct2, THEN conjunct2, THEN conjunct2, THEN conjunct2,
     THEN conjunct2, THEN conjunct2, THEN conjunct2, THEN conjunct1, rule_format,
     OF sentencias_ejemplo(6)]
  note c15 = esquema_omitido
    [THEN conjunct2, THEN conjunct2, THEN conjunct2, THEN conjunct2, THEN conjunct2,
     THEN conjunct2, THEN conjunct2, THEN conjunct2, THEN conjunct2, THEN conjunct2,
     THEN conjunct2, THEN conjunct2, THEN conjunct2, THEN conjunct2, THEN conjunct1,
     rule_format, OF crear_ejemplo(3)]
  note c18 = esquema_omitido
    [THEN conjunct2, THEN conjunct2, THEN conjunct2, THEN conjunct2, THEN conjunct2,
     THEN conjunct2, THEN conjunct2, THEN conjunct2, THEN conjunct2, THEN conjunct2,
     THEN conjunct2, THEN conjunct2, THEN conjunct2, THEN conjunct2, THEN conjunct2,
     THEN conjunct2, THEN conjunct2, rule_format, OF sentencias_ejemplo(11)]
  from c1 c2 c3 c4 c5 c6 c7 c11 c13 c14 c15 c18 show ?thesis
    by (simp add: sentencias_ejemplo crear_ejemplo actualizar_ejemplo)
qed

section \<open>Detecting the type of a column\<close>










section \<open>Dates there and back\<close>






















section \<open>Verifying credentials\<close>

lemma hash_de_fila_None:
  "(hash_de_fila L (fetchone r) = None) =
     (filas r = [] \<or> (\<exists>resto. filas r = [] # resto) \<or>
      (\<exists>v cs resto. filas r = (v # cs) # resto \<and> \<not> py_truthy v))"
proof (cases "filas r")
  case Nil
  then show ?thesis by (simp add: fetchone_def)
next
  case (Cons fila resto)
  then show ?thesis by (cases fila) (auto simp: fetchone_def)
qed

lemma hash_de_fila_Some:
  "(hash_de_fila L (fetchone r) = Some x) =
     (\<exists>v cs resto. filas r = (v # cs) # resto \<and> py_truthy v \<and> x = py_str L v)"
proof (cases "filas r")
  case Nil
  then show ?thesis by (simp add: fetchone_def)
next
  case (Cons fila resto)
  then show ?thesis by (cases fila) (auto simp: fetchone_def)
qed

lemma verificar_contrasena_servicio:
  assumes "\<not> vacio t" "\<not> vacio cu" "\<not> vacio cc" "\<not> vacio vu" "\<not> vacio pw"
    and "obtener t cu cc vu (esquema_norm esq) = Inr ho"
  shows "(verificar_contrasena L obtener t cu cc vu pw esq = Inr (404, ''Usuario no encontrado.'')) =
           (ho = None)"
    and "(verificar_contrasena L obtener t cu cc vu pw esq =
            Inr (200, ''Contrase'' @ [CHR 0xF1] @ ''a v'' @ [CHR 0xE1] @ ''lida.'')) =
           (\<exists>x. ho = Some x \<and> \<not> vacio x \<and> checkpw L pw x = Inr True)"
    and "(verificar_contrasena L obtener t cu cc vu pw esq =
            Inr (401, ''Contrase'' @ [CHR 0xF1] @ ''a incorrecta.'')) =
           (\<exists>x. ho = Some x \<and> \<not> vacio x \<and> checkpw L pw x \<noteq> Inr True)"
  using assms
  by (auto simp: verificar_contrasena_def verificar_def split: option.splits sum.splits bool.splits)


lemma obtener_hash_ejecutado:
  "obtener_hash_contrasena_sqlserver_sentencia t cu cc vu e = Inr s \<Longrightarrow> db s = Inr r \<Longrightarrow>
     obtener_hash_contrasena_sqlserver L db t cu cc vu e = Inr (hash_de_fila L (fetchone r))"
  "obtener_hash_contrasena_postgresql_sentencia t cu cc vu e = Inr s \<Longrightarrow> db s = Inr r \<Longrightarrow>
     obtener_hash_contrasena_postgresql L db t cu cc vu e = Inr (hash_de_fila L (fetchone r))"
  "obtener_hash_contrasena_mysql_sentencia t cu cc vu e = Inr s \<Longrightarrow> db s = Inr r \<Longrightarrow>
     obtener_hash_contrasena_mysql L db t cu cc vu e = Inr (hash_de_fila L (fetchone r))"
  by (simp_all add: obtener_hash_contrasena_sqlserver_def obtener_hash_contrasena_postgresql_def
      obtener_hash_contrasena_mysql_def ejecutar_def)

text \<open>
  Claim C4, as stated: credential verification answers 404 exactly when the user value
  matches no row, 401 exactly when a stored hash exists and the plaintext does not verify
  against it, and 200 exactly when the plaintext verifies against the stored hash.

  The lookup returns \<open>None\<close> also for a row whose password cell is NULL: the user
  \<open>a@b.com\<close> matches a row, and the answer is 404.
\<close>

theorem verificar_contrasena_hash_nulo:
  "obtener_hash_contrasena_sqlserver_sentencia ''usuarios'' ''email'' ''clave'' ''a@b.com'' None =
     Inr \<lparr>sql = plantilla 12
            [''SELECT [clave]'', ''FROM [dbo].[usuarios]'', ''WHERE [email] = :valor_usuario''],
          parametros = [(''valor_usuario'', VStr ''a@b.com'')]\<rparr> \<and>
   bd_ejemplo VNone
     \<lparr>sql = plantilla 12
        [''SELECT [clave]'', ''FROM [dbo].[usuarios]'', ''WHERE [email] = :valor_usuario''],
      parametros = [(''valor_usuario'', VStr ''a@b.com'')]\<rparr> =
     Inr \<lparr>columnas = [''columna''], filas = [[VNone]], rowcount = 1\<rparr> \<and>
   verificar_contrasena biblioteca_ejemplo
     (obtener_hash_contrasena_sqlserver biblioteca_ejemplo (bd_ejemplo VNone))
     ''usuarios'' ''email'' ''clave'' ''a@b.com'' ''secreto'' None =
     Inr (404, ''Usuario no encontrado.'')"
  by (simp add: sentencias_ejemplo verificar_contrasena_def obtener_hash_contrasena_sqlserver_def
      ejecutar_def esquema_norm_def bd_ejemplo_def fetchone_def no_vacio_ejemplos)

text \<open>
  Claim C4, amended: with arguments that are not blank and a lookup that the database
  answers, credential verification in every dialect returns 404 exactly when the lookup
  yields no stored hash, that is when no row matches the user value or the password cell of
  the first matching row is NULL, empty or otherwise falsy; 200 exactly when that cell is
  truthy, its text is not blank and \<open>checkpw\<close> accepts the plaintext against it; and
  401 exactly when that cell is truthy, its text is not blank and \<open>checkpw\<close> does not
  accept the plaintext (it answers false or raises).
\<close>

theorem verificar_contrasena_resultados:
  assumes "\<not> vacio t" and "\<not> vacio cu" and "\<not> vacio cc" and "\<not> vacio vu" and "\<not> vacio pw"
    and "(obtener = obtener_hash_contrasena_sqlserver L db \<and>
          obtener_hash_contrasena_sqlserver_sentencia t cu cc vu (esquema_norm esq) = Inr s) \<or>
         (obtener = obtener_hash_contrasena_postgresql L db \<and>
          obtener_hash_contrasena_postgresql_sentencia t cu cc vu (esquema_norm esq) = Inr s) \<or>
         (obtener = obtener_hash_contrasena_mysql L db \<and>
          obtener_hash_contrasena_mysql_sentencia t cu cc vu (esquema_norm esq) = Inr s)"
    and "db s = Inr r"
  shows
    "((verificar_contrasena L obtener t cu cc vu pw esq = Inr (404, ''Usuario no encontrado.'')) =
        (filas r = [] \<or> (\<exists>resto. filas r = [] # resto) \<or>
         (\<exists>v cs resto. filas r = (v # cs) # resto \<and> \<not> py_truthy v))) \<and>
     ((verificar_contrasena L obtener t cu cc vu pw esq =
         Inr (200, ''Contrase'' @ [CHR 0xF1] @ ''a v'' @ [CHR 0xE1] @ ''lida.'')) =
        (\<exists>v cs resto. filas r = (v # cs) # resto \<and> py_truthy v \<and> \<not> vacio (py_str L v) \<and>
           checkpw L pw (py_str L v) = Inr True)) \<and>
     ((verificar_contrasena L obtener t cu cc vu pw esq =
         Inr (401, ''Contrase'' @ [CHR 0xF1] @ ''a incorrecta.'')) =
        (\<exists>v cs resto. filas r = (v # cs) # resto \<and> py_truthy v \<and> \<not> vacio (py_str L v) \<and>
           checkpw L pw (py_str L v) \<noteq> Inr True))"
proof -
  from assms(6,7)
  have o: "obtener t cu cc vu (esquema_norm esq) = Inr (hash_de_fila L (fetchone r))"
    by (auto simp: obtener_hash_ejecutado)
  note sv = verificar_contrasena_servicio
    [where obtener = obtener and L = L and esq = esq, OF assms(1-5) o]
  show ?thesis
    unfolding sv hash_de_fila_None hash_de_fila_Some by blast
qed

lemma verificar_ejemplos:
  "obtener_hash_contrasena_sqlserver_sentencia ''usuarios'' ''email'' ''clave'' ''a@b.com''
     (esquema_norm None) =
     Inr \<lparr>sql = plantilla 12
            [''SELECT [clave]'', ''FROM [dbo].[usuarios]'', ''WHERE [email] = :valor_usuario''],
          parametros = [(''valor_usuario'', VStr ''a@b.com'')]\<rparr>"
  "bd_ejemplo celda st = Inr \<lparr>columnas = [''columna''], filas = [[celda]], rowcount = 1\<rparr>"
  "bd_vacia st = Inr \<lparr>columnas = [''columna''], filas = [], rowcount = 0\<rparr>"
  "\<not> vacio ''otra''" "\<not> vacio ''$2b$12$secreto''"
  "checkpw biblioteca_ejemplo ''secreto'' ''$2b$12$secreto'' = Inr True"
  "checkpw biblioteca_ejemplo ''otra'' ''$2b$12$secreto'' = Inr False"
  by (simp_all add: sentencias_ejemplo esquema_norm_def bd_ejemplo_def bd_vacia_def vacio_def
      strip_no_vacio py_isspace_def biblioteca_ejemplo_def)

theorem verificar_contrasena_testigo:
  "verificar_contrasena biblioteca_ejemplo
     (obtener_hash_contrasena_sqlserver biblioteca_ejemplo (bd_ejemplo (VStr ''$2b$12$secreto'')))
     ''usuarios'' ''email'' ''clave'' ''a@b.com'' ''secreto'' None =
     Inr (200, ''Contrase'' @ [CHR 0xF1] @ ''a v'' @ [CHR 0xE1] @ ''lida.'') \<and>
   verificar_contrasena biblioteca_ejemplo
     (obtener_hash_contrasena_sqlserver biblioteca_ejemplo (bd_ejemplo (VStr ''$2b$12$secreto'')))
     ''usuarios'' ''email'' ''clave'' ''a@b.com'' ''otra'' None =
     Inr (401, ''Contrase'' @ [CHR 0xF1] @ ''a incorrecta.'') \<and>
   verificar_contrasena biblioteca_ejemplo
     (obtener_hash_contrasena_sqlserver biblioteca_ejemplo bd_vacia)
     ''usuarios'' ''email'' ''clave'' ''a@b.com'' ''secreto'' None =
     Inr (404, ''Usuario no encontrado.'')"
proof -
  note d = disjI1 [OF conjI [OF refl verificar_ejemplos(1)]]
  note n = no_vacio_ejemplos(1,7,8,9)
  note c200 = verificar_contrasena_resultados
    [where L = biblioteca_ejemplo and db = "bd_ejemplo (VStr ''$2b$12$secreto'')",
     OF n no_vacio_ejemplos(10) d verificar_ejemplos(2), THEN conjunct2, THEN conjunct1]
  note c401 = verificar_contrasena_resultados
    [where L = biblioteca_ejemplo and db = "bd_ejemplo (VStr ''$2b$12$secreto'')",
     OF n verificar_ejemplos(4) d verificar_ejemplos(2), THEN conjunct2, THEN conjunct2]
  note c404 = verificar_contrasena_resultados
    [where L = biblioteca_ejemplo and db = bd_vacia,
     OF n no_vacio_ejemplos(10) d verificar_ejemplos(3), THEN conjunct1]
  from c200 c401 c404 show ?thesis
    by (simp add: verificar_ejemplos)
qed

end
